theory Spec2Isabelle
  imports Complex_Main "HOL-Library.Char_ord"
begin

section \<open>The NEET OMR evaluator\<close>

text \<open>
  A shallow embedding of \<^verbatim>\<open>src/server/utils/neetOmrEvaluator.js\<close>: the exported
  \<^verbatim>\<open>evaluateNeetOMR\<close> and its private helper \<^verbatim>\<open>getSubject\<close>.
  The controller that calls it (upload, storage, HTTP) is not modelled.
\<close>

subsection \<open>JavaScript values\<close>

text \<open>
  A JavaScript number is NaN, one of the two infinities, or a finite double. The evaluator
  never computes with a question number: it tests it with \<^verbatim>\<open>Number.isFinite\<close>, uses it as a
  \<^verbatim>\<open>Map\<close> key and compares it with integer constants. For these three uses a finite double
  is faithfully represented by the rational number it denotes (the two zeros are one key of a
  \<^verbatim>\<open>Map\<close> and compare equal), so finite numbers are rationals here.
\<close>

datatype jsnum = NaN | Infinity | NegInfinity | Finite rat

text \<open>
  The values a property of a row can hold: the primitives that a JSON request body can
  carry, and \<^verbatim>\<open>undefined\<close> for a property that is missing. On these values no conversion
  throws. Symbols and objects, whose conversion can throw, are added further down, with the
  function on rows that hold them. A string is a list of
  characters; the code never looks inside one, except through the built-ins below and to
  test whether it is empty or equal to another.
\<close>

datatype jsval = JUndefined | JNull | JBool bool | JNum jsnum | JStr string

text \<open>
  Three built-ins of the language are used by the code and are not part of the repository:
  the conversion of a string to a number, the conversion of a number to a string, and
  \<^verbatim>\<open>String.prototype.toUpperCase\<close>. They are parameters of the model: every theorem below
  holds for any implementation of them.
\<close>

record builtins =
  StringToNumber :: "string \<Rightarrow> jsnum"
  NumberToString :: "jsnum \<Rightarrow> string"
  toUpperCase :: "string \<Rightarrow> string"

text \<open>\<^verbatim>\<open>Number(v)\<close> on one of these primitives.\<close>

fun Number :: "builtins \<Rightarrow> jsval \<Rightarrow> jsnum" where
  "Number B JUndefined = NaN"
| "Number B JNull = Finite 0"
| "Number B (JBool b) = Finite (if b then 1 else 0)"
| "Number B (JNum n) = n"
| "Number B (JStr s) = StringToNumber B s"

text \<open>\<^verbatim>\<open>String(v)\<close> on one of these primitives.\<close>

fun String :: "builtins \<Rightarrow> jsval \<Rightarrow> string" where
  "String B JUndefined = ''undefined''"
| "String B JNull = ''null''"
| "String B (JBool b) = (if b then ''true'' else ''false'')"
| "String B (JNum n) = NumberToString B n"
| "String B (JStr s) = s"

text \<open>\<^verbatim>\<open>Number.isFinite(n)\<close>.\<close>

fun isFinite :: "jsnum \<Rightarrow> bool" where
  "isFinite (Finite x) = True"
| "isFinite n = False"

text \<open>\<^verbatim>\<open>a <= b\<close> and \<^verbatim>\<open>a >= b\<close> on numbers: every comparison with NaN is false.\<close>

fun js_le :: "jsnum \<Rightarrow> jsnum \<Rightarrow> bool" where
  "js_le NaN b = False"
| "js_le a NaN = False"
| "js_le NegInfinity b = True"
| "js_le a Infinity = True"
| "js_le Infinity b = False"
| "js_le a NegInfinity = False"
| "js_le (Finite x) (Finite y) = (x \<le> y)"

definition js_ge :: "jsnum \<Rightarrow> jsnum \<Rightarrow> bool" where
  "js_ge a b = js_le b a"

text \<open>\<^verbatim>\<open>!v\<close>: the values that convert to false.\<close>

fun falsy :: "jsval \<Rightarrow> bool" where
  "falsy JUndefined = True"
| "falsy JNull = True"
| "falsy (JBool b) = (\<not> b)"
| "falsy (JNum n) = (n = NaN \<or> n = Finite 0)"
| "falsy (JStr s) = (s = [])"

text \<open>\<^verbatim>\<open>a === b\<close> on primitives: the same type and the same value, and NaN equals nothing.\<close>

definition strictEq :: "jsval \<Rightarrow> jsval \<Rightarrow> bool" where
  "strictEq a b = (a = b \<and> a \<noteq> JNum NaN)"

subsection \<open>Rows, results and errors\<close>

text \<open>
  An input row is an object; the code reads three of its properties, and a property that
  the object does not have reads as \<^verbatim>\<open>undefined\<close>. An element of an input array is such
  an object, or \<^verbatim>\<open>null\<close>/\<^verbatim>\<open>undefined\<close>, on which reading a property raises a TypeError.
\<close>

record row =
  questionNumber :: jsval
  correctOption :: jsval
  selectedOption :: jsval

datatype element = Nullish | Object row

datatype error = TypeError

text \<open>
  A record pushed to \<^verbatim>\<open>wrongQuestions\<close> has the properties \<^verbatim>\<open>questionNumber\<close>,
  \<^verbatim>\<open>subject\<close>, \<^verbatim>\<open>selectedOption\<close> and \<^verbatim>\<open>correctOption\<close>: the three names it shares with
  a row, and the subject.
\<close>

record wrongQuestion = row +
  subject :: string

text \<open>
  The returned object. Marks and counts are JavaScript numbers that only ever hold integers
  (they start at 0 and change by 4 or 1), so they are integers and naturals here.
\<close>

record evaluationResult =
  physicsMarks :: int
  chemistryMarks :: int
  biologyMarks :: int
  totalMarks :: int
  correctCount :: nat
  incorrectCount :: nat
  unattemptedCount :: nat
  wrongQuestions :: "wrongQuestion list"

subsection \<open>The Map of the language\<close>

text \<open>
  A \<^verbatim>\<open>Map\<close> keeps its entries in the order in which their keys were first inserted;
  \<^verbatim>\<open>set\<close> on a key that is present replaces the value and leaves the entry where it is.
  That is an association list with update in place.
\<close>

fun Map_set :: "('k \<times> 'v) list \<Rightarrow> 'k \<Rightarrow> 'v \<Rightarrow> ('k \<times> 'v) list" where
  "Map_set [] k v = [(k, v)]"
| "Map_set ((k', v') # m) k v =
     (if k' = k then (k, v) # m else (k', v') # Map_set m k v)"

fun Map_get :: "('k \<times> 'v) list \<Rightarrow> 'k \<Rightarrow> 'v option" where
  "Map_get [] k = None"
| "Map_get ((k', v') # m) k = (if k' = k then Some v' else Map_get m k)"

subsection \<open>getSubject\<close>

fun getSubject :: "jsnum \<Rightarrow> string" where
  "getSubject qNumber =
     (if js_ge qNumber (Finite 1) \<and> js_le qNumber (Finite 50) then ''Physics''
      else if js_ge qNumber (Finite 51) \<and> js_le qNumber (Finite 100) then ''Chemistry''
      else ''Biology'')"

subsection \<open>evaluateNeetOMR\<close>

text \<open>
  A \<^verbatim>\<open>for (const item of xs)\<close> loop whose body may throw: the state is threaded through
  the elements, and the first error ends the loop.
\<close>

fun forOf :: "('s \<Rightarrow> 'a \<Rightarrow> error + 's) \<Rightarrow> 's \<Rightarrow> 'a list \<Rightarrow> error + 's" where
  "forOf body s [] = Inr s"
| "forOf body s (item # items) =
     (case body s item of Inl e \<Rightarrow> Inl e | Inr s' \<Rightarrow> forOf body s' items)"

text \<open>
  The expression \<^verbatim>\<open>v != null ? String(v).toUpperCase() : null\<close>, which the code applies
  to \<^verbatim>\<open>item.correctOption\<close> and to \<^verbatim>\<open>item.selectedOption\<close>.
\<close>

definition normalizeOption :: "builtins \<Rightarrow> jsval \<Rightarrow> jsval" where
  "normalizeOption B v =
     (if v \<noteq> JNull \<and> v \<noteq> JUndefined then JStr (toUpperCase B (String B v)) else JNull)"

text \<open>The body of the first loop (lines 3 to 16).\<close>

definition answerKeyStep ::
  "builtins \<Rightarrow> (jsnum \<times> jsval) list \<Rightarrow> element \<Rightarrow> error + (jsnum \<times> jsval) list" where
  "answerKeyStep B answerKeyMap item =
     (case item of
        Nullish \<Rightarrow> Inl TypeError
      | Object r \<Rightarrow>
          (let qNumber = Number B (questionNumber r) in
           if \<not> isFinite qNumber then Inr answerKeyMap
           else
             (let cOption = normalizeOption B (correctOption r) in
              if falsy cOption then Inr answerKeyMap
              else Inr (Map_set answerKeyMap qNumber cOption))))"

text \<open>
  The body of the second loop (lines 19 to 29). The stored entry is a fresh object: the
  properties of the item, with \<^verbatim>\<open>questionNumber\<close> and \<^verbatim>\<open>selectedOption\<close> replaced.
\<close>

definition studentStep ::
  "builtins \<Rightarrow> (jsnum \<times> row) list \<Rightarrow> element \<Rightarrow> error + (jsnum \<times> row) list" where
  "studentStep B studentMap item =
     (case item of
        Nullish \<Rightarrow> Inl TypeError
      | Object r \<Rightarrow>
          (let qNumber = Number B (questionNumber r) in
           if \<not> isFinite qNumber then Inr studentMap
           else
             (let sOption = normalizeOption B (selectedOption r) in
              Inr (Map_set studentMap qNumber
                     (r\<lparr>questionNumber := JNum qNumber, selectedOption := sOption\<rparr>)))))"

text \<open>
  The body of the third loop (lines 40 to 77), on the eight variables declared at lines 31
  to 38, which are the fields of the result.
\<close>

definition scoreStep ::
  "(jsnum \<times> row) list \<Rightarrow> evaluationResult \<Rightarrow> jsnum \<times> jsval \<Rightarrow> evaluationResult" where
  "scoreStep studentMap s entry =
     (let qNumber = fst entry;
          cOption = snd entry;
          subj = getSubject qNumber
      in case Map_get studentMap qNumber of
           None \<Rightarrow> s\<lparr>unattemptedCount := unattemptedCount s + 1\<rparr>
         | Some studentEntry \<Rightarrow>
             if falsy (selectedOption studentEntry)
             then s\<lparr>unattemptedCount := unattemptedCount s + 1\<rparr>
             else if strictEq (selectedOption studentEntry) cOption
             then
               (let s1 = s\<lparr>correctCount := correctCount s + 1, totalMarks := totalMarks s + 4\<rparr>
                in if subj = ''Physics'' then s1\<lparr>physicsMarks := physicsMarks s1 + 4\<rparr>
                   else if subj = ''Chemistry'' then s1\<lparr>chemistryMarks := chemistryMarks s1 + 4\<rparr>
                   else if subj = ''Biology'' then s1\<lparr>biologyMarks := biologyMarks s1 + 4\<rparr>
                   else s1)
             else
               (let s1 = s\<lparr>incorrectCount := incorrectCount s + 1, totalMarks := totalMarks s - 1\<rparr>;
                    s2 = (if subj = ''Physics'' then s1\<lparr>physicsMarks := physicsMarks s1 - 1\<rparr>
                          else if subj = ''Chemistry''
                            then s1\<lparr>chemistryMarks := chemistryMarks s1 - 1\<rparr>
                          else if subj = ''Biology'' then s1\<lparr>biologyMarks := biologyMarks s1 - 1\<rparr>
                          else s1)
                in s2\<lparr>wrongQuestions := wrongQuestions s2 @
                       [\<lparr>questionNumber = JNum qNumber,
                         correctOption = cOption,
                         selectedOption = selectedOption studentEntry,
                         subject = subj\<rparr>]\<rparr>))"

definition initialResult :: evaluationResult where
  "initialResult =
     \<lparr>physicsMarks = 0, chemistryMarks = 0, biologyMarks = 0, totalMarks = 0,
      correctCount = 0, incorrectCount = 0, unattemptedCount = 0, wrongQuestions = []\<rparr>"

definition evaluateNeetOMR ::
  "builtins \<Rightarrow> element list \<Rightarrow> element list \<Rightarrow> error + evaluationResult" where
  "evaluateNeetOMR B answerKey studentAnswers =
     (case forOf (answerKeyStep B) [] answerKey of
        Inl e \<Rightarrow> Inl e
      | Inr answerKeyMap \<Rightarrow>
          (case forOf (studentStep B) [] studentAnswers of
             Inl e \<Rightarrow> Inl e
           | Inr studentMap \<Rightarrow>
               Inr (foldl (scoreStep studentMap) initialResult answerKeyMap)))"

subsection \<open>evaluateNeetOMR on a store\<close>

text \<open>
  The same function with the objects it is given and the objects it creates held in a store,
  to state what it does to its inputs. An address is an index into the store; a cell is an
  array of references or an object with the three properties. The code creates objects (the
  entry \<^verbatim>\<open>{ ...item, questionNumber, selectedOption }\<close> of each student row) and never
  assigns to a property of an object it was given, so the only operation on the store
  besides reading is allocation. The two Maps, the local variables and the returned object
  are not reachable from the inputs and stay values.
\<close>

type_synonym addr = nat

datatype ref = RNullish | RObject addr

datatype cell = ArrayCell "ref list" | RowCell row

type_synonym store = "cell list"

definition lookup :: "store \<Rightarrow> addr \<Rightarrow> cell option" where
  "lookup h a = (if a < length h then Some (h ! a) else None)"

definition alloc :: "store \<Rightarrow> cell \<Rightarrow> addr \<times> store" where
  "alloc h c = (length h, h @ [c])"

text \<open>An object without any of the three properties: each reads as \<^verbatim>\<open>undefined\<close>.\<close>

definition emptyRow :: row where
  "emptyRow =
     \<lparr>questionNumber = JUndefined, correctOption = JUndefined, selectedOption = JUndefined\<rparr>"

definition rowOf :: "store \<Rightarrow> addr \<Rightarrow> row" where
  "rowOf h a = (case lookup h a of Some (RowCell r) \<Rightarrow> r | _ \<Rightarrow> emptyRow)"

definition deref :: "store \<Rightarrow> ref \<Rightarrow> element" where
  "deref h x = (case x of RNullish \<Rightarrow> Nullish | RObject a \<Rightarrow> Object (rowOf h a))"

text \<open>The elements of an array; \<^verbatim>\<open>for ... of\<close> on anything else raises a TypeError.\<close>

definition elementsOf :: "store \<Rightarrow> addr \<Rightarrow> ref list option" where
  "elementsOf h a = (case lookup h a of Some (ArrayCell xs) \<Rightarrow> Some xs | _ \<Rightarrow> None)"

text \<open>The second loop: each stored entry is a new object of the store.\<close>

fun studentLoop ::
  "builtins \<Rightarrow> store \<Rightarrow> (jsnum \<times> addr) list \<Rightarrow> ref list \<Rightarrow>
     (error + (jsnum \<times> addr) list) \<times> store" where
  "studentLoop B h studentMap [] = (Inr studentMap, h)"
| "studentLoop B h studentMap (x # xs) =
     (case deref h x of
        Nullish \<Rightarrow> (Inl TypeError, h)
      | Object r \<Rightarrow>
          (let qNumber = Number B (questionNumber r) in
           if \<not> isFinite qNumber then studentLoop B h studentMap xs
           else
             (let sOption = normalizeOption B (selectedOption r);
                  (a, h') = alloc h (RowCell (r\<lparr>questionNumber := JNum qNumber,
                                               selectedOption := sOption\<rparr>))
              in studentLoop B h' (Map_set studentMap qNumber a) xs)))"

text \<open>The student map as the third loop reads it: each entry through its address.\<close>

definition entriesOf :: "store \<Rightarrow> (jsnum \<times> addr) list \<Rightarrow> (jsnum \<times> row) list" where
  "entriesOf h studentMap = map (\<lambda>p. (fst p, rowOf h (snd p))) studentMap"

definition evaluateNeetOMR_store ::
  "builtins \<Rightarrow> store \<Rightarrow> addr \<Rightarrow> addr \<Rightarrow> (error + evaluationResult) \<times> store" where
  "evaluateNeetOMR_store B h answerKey studentAnswers =
     (case elementsOf h answerKey of
        None \<Rightarrow> (Inl TypeError, h)
      | Some keyRefs \<Rightarrow>
          (case forOf (\<lambda>m x. answerKeyStep B m (deref h x)) [] keyRefs of
             Inl e \<Rightarrow> (Inl e, h)
           | Inr answerKeyMap \<Rightarrow>
               (case elementsOf h studentAnswers of
                  None \<Rightarrow> (Inl TypeError, h)
                | Some studentRefs \<Rightarrow>
                    (case studentLoop B h [] studentRefs of
                       (Inl e, h') \<Rightarrow> (Inl e, h')
                     | (Inr studentMap, h') \<Rightarrow>
                         (Inr (foldl (scoreStep (entriesOf h' studentMap)) initialResult
                                 answerKeyMap), h')))))"

text \<open>
  A call is well formed when its two arguments are arrays of the store whose elements are
  null or objects of the store. The content of an array is the list of its elements, each
  with its properties: two arrays are structurally identical when their contents are equal.
\<close>

definition validRef :: "store \<Rightarrow> ref \<Rightarrow> bool" where
  "validRef h x = (case x of RNullish \<Rightarrow> True | RObject a \<Rightarrow> a < length h)"

definition wellFormed :: "store \<Rightarrow> addr \<Rightarrow> addr \<Rightarrow> bool" where
  "wellFormed h answerKey studentAnswers =
     (case (elementsOf h answerKey, elementsOf h studentAnswers) of
        (Some keyRefs, Some studentRefs) \<Rightarrow>
          list_all (validRef h) keyRefs \<and> list_all (validRef h) studentRefs
      | _ \<Rightarrow> False)"

definition contentOf :: "store \<Rightarrow> addr \<Rightarrow> element list option" where
  "contentOf h a = map_option (map (deref h)) (elementsOf h a)"

subsection \<open>evaluateNeetOMR on values whose conversion can throw\<close>

text \<open>
  A property of a row can hold any value of the language. \<^verbatim>\<open>Number(v)\<close> throws a TypeError
  on a Symbol; on an object, \<^verbatim>\<open>Number(v)\<close> and \<^verbatim>\<open>String(v)\<close> first convert the object to a
  primitive, through its \<^verbatim>\<open>valueOf\<close> and \<^verbatim>\<open>toString\<close>, which throws a TypeError when
  neither is callable or neither gives a primitive (the object \<^verbatim>\<open>{"toString": null}\<close> of a
  JSON body is one). The code calls \<^verbatim>\<open>Number\<close> on \<^verbatim>\<open>item.questionNumber\<close> (lines 4 and 20)
  and \<^verbatim>\<open>String\<close> on the option (lines 10 and 26), outside any \<^verbatim>\<open>try\<close>.

  A value is one of the primitives above, a Symbol with its description, or an object. An
  object is represented by what its conversion to a primitive gives when a number is asked
  for and when a string is asked for: a primitive, or a TypeError (also where the conversion
  gives a Symbol, which neither \<^verbatim>\<open>Number\<close> nor \<^verbatim>\<open>String\<close> accepts from an object). A plain
  object \<^verbatim>\<open>{}\<close> gives the string \<^verbatim>\<open>[object Object]\<close> both times, an array the joined
  strings of its elements. Objects whose methods run code of the caller that throws
  something else, or changes the input, are outside the model.
\<close>

datatype jsany = Prim jsval | JSymbol string | JObject "error + jsval" "error + jsval"

fun NumberAny :: "builtins \<Rightarrow> jsany \<Rightarrow> error + jsnum" where
  "NumberAny B (Prim v) = Inr (Number B v)"
| "NumberAny B (JSymbol d) = Inl TypeError"
| "NumberAny B (JObject byNumber byString) =
     (case byNumber of Inl e \<Rightarrow> Inl e | Inr v \<Rightarrow> Inr (Number B v))"

text \<open>\<^verbatim>\<open>String(v)\<close> of a Symbol is its descriptive string and does not throw.\<close>

fun StringAny :: "builtins \<Rightarrow> jsany \<Rightarrow> error + string" where
  "StringAny B (Prim v) = Inr (String B v)"
| "StringAny B (JSymbol d) = Inr (''Symbol('' @ d @ '')'')"
| "StringAny B (JObject byNumber byString) =
     (case byString of Inl e \<Rightarrow> Inl e | Inr v \<Rightarrow> Inr (String B v))"

text \<open>\<^verbatim>\<open>v != null ? String(v).toUpperCase() : null\<close>, where \<^verbatim>\<open>String(v)\<close> may throw.\<close>

definition normalizeOptionAny :: "builtins \<Rightarrow> jsany \<Rightarrow> error + jsval" where
  "normalizeOptionAny B v =
     (if v \<noteq> Prim JNull \<and> v \<noteq> Prim JUndefined
      then (case StringAny B v of Inl e \<Rightarrow> Inl e | Inr s \<Rightarrow> Inr (JStr (toUpperCase B s)))
      else Inr JNull)"

text \<open>
  A row with the three properties holding any value, and the entry
  \<^verbatim>\<open>{ ...item, questionNumber, selectedOption }\<close> stored for a student row: the properties of
  the item, and the two that replace the item's.
\<close>

record anyRow =
  anyQuestionNumber :: jsany
  anyCorrectOption :: jsany
  anySelectedOption :: jsany

datatype anyElement = AnyNullish | AnyObject anyRow

record anyEntry =
  spread :: anyRow
  entryNumber :: jsnum
  entryOption :: jsval

text \<open>The bodies of the three loops, with the conversions that may throw.\<close>

definition answerKeyStepAny ::
  "builtins \<Rightarrow> (jsnum \<times> jsval) list \<Rightarrow> anyElement \<Rightarrow> error + (jsnum \<times> jsval) list" where
  "answerKeyStepAny B answerKeyMap item =
     (case item of
        AnyNullish \<Rightarrow> Inl TypeError
      | AnyObject r \<Rightarrow>
          (case NumberAny B (anyQuestionNumber r) of
             Inl e \<Rightarrow> Inl e
           | Inr qNumber \<Rightarrow>
               if \<not> isFinite qNumber then Inr answerKeyMap
               else
                 (case normalizeOptionAny B (anyCorrectOption r) of
                    Inl e \<Rightarrow> Inl e
                  | Inr cOption \<Rightarrow>
                      if falsy cOption then Inr answerKeyMap
                      else Inr (Map_set answerKeyMap qNumber cOption))))"

definition studentStepAny ::
  "builtins \<Rightarrow> (jsnum \<times> anyEntry) list \<Rightarrow> anyElement \<Rightarrow> error + (jsnum \<times> anyEntry) list" where
  "studentStepAny B studentMap item =
     (case item of
        AnyNullish \<Rightarrow> Inl TypeError
      | AnyObject r \<Rightarrow>
          (case NumberAny B (anyQuestionNumber r) of
             Inl e \<Rightarrow> Inl e
           | Inr qNumber \<Rightarrow>
               if \<not> isFinite qNumber then Inr studentMap
               else
                 (case normalizeOptionAny B (anySelectedOption r) of
                    Inl e \<Rightarrow> Inl e
                  | Inr sOption \<Rightarrow>
                      Inr (Map_set studentMap qNumber
                             \<lparr>spread = r, entryNumber = qNumber, entryOption = sOption\<rparr>))))"

definition scoreStepAny ::
  "(jsnum \<times> anyEntry) list \<Rightarrow> evaluationResult \<Rightarrow> jsnum \<times> jsval \<Rightarrow> evaluationResult" where
  "scoreStepAny studentMap s entry =
     (let qNumber = fst entry;
          cOption = snd entry;
          subj = getSubject qNumber
      in case Map_get studentMap qNumber of
           None \<Rightarrow> s\<lparr>unattemptedCount := unattemptedCount s + 1\<rparr>
         | Some studentEntry \<Rightarrow>
             if falsy (entryOption studentEntry)
             then s\<lparr>unattemptedCount := unattemptedCount s + 1\<rparr>
             else if strictEq (entryOption studentEntry) cOption
             then
               (let s1 = s\<lparr>correctCount := correctCount s + 1, totalMarks := totalMarks s + 4\<rparr>
                in if subj = ''Physics'' then s1\<lparr>physicsMarks := physicsMarks s1 + 4\<rparr>
                   else if subj = ''Chemistry'' then s1\<lparr>chemistryMarks := chemistryMarks s1 + 4\<rparr>
                   else if subj = ''Biology'' then s1\<lparr>biologyMarks := biologyMarks s1 + 4\<rparr>
                   else s1)
             else
               (let s1 = s\<lparr>incorrectCount := incorrectCount s + 1, totalMarks := totalMarks s - 1\<rparr>;
                    s2 = (if subj = ''Physics'' then s1\<lparr>physicsMarks := physicsMarks s1 - 1\<rparr>
                          else if subj = ''Chemistry''
                            then s1\<lparr>chemistryMarks := chemistryMarks s1 - 1\<rparr>
                          else if subj = ''Biology'' then s1\<lparr>biologyMarks := biologyMarks s1 - 1\<rparr>
                          else s1)
                in s2\<lparr>wrongQuestions := wrongQuestions s2 @
                       [\<lparr>questionNumber = JNum qNumber,
                         correctOption = cOption,
                         selectedOption = entryOption studentEntry,
                         subject = subj\<rparr>]\<rparr>))"

definition evaluateNeetOMR_any ::
  "builtins \<Rightarrow> anyElement list \<Rightarrow> anyElement list \<Rightarrow> error + evaluationResult" where
  "evaluateNeetOMR_any B answerKey studentAnswers =
     (case forOf (answerKeyStepAny B) [] answerKey of
        Inl e \<Rightarrow> Inl e
      | Inr answerKeyMap \<Rightarrow>
          (case forOf (studentStepAny B) [] studentAnswers of
             Inl e \<Rightarrow> Inl e
           | Inr studentMap \<Rightarrow>
               Inr (foldl (scoreStepAny studentMap) initialResult answerKeyMap)))"

section \<open>What the rows of the input contribute\<close>

text \<open>
  The notions the properties below are stated with. The objects of an input array, in
  order:
\<close>

fun rows :: "element list \<Rightarrow> row list" where
  "rows [] = []"
| "rows (Nullish # items) = rows items"
| "rows (Object r # items) = r # rows items"

text \<open>
  An answer-key row survives the drop rules when its question number coerces to a finite
  number and its normalized option is not null or empty. A student row enters the lookup
  when its question number coerces to a finite number.
\<close>

definition keySurvives :: "builtins \<Rightarrow> row \<Rightarrow> bool" where
  "keySurvives B r =
     (isFinite (Number B (questionNumber r)) \<and> \<not> falsy (normalizeOption B (correctOption r)))"

definition studentSurvives :: "builtins \<Rightarrow> row \<Rightarrow> bool" where
  "studentSurvives B r = isFinite (Number B (questionNumber r))"

text \<open>The coerced question number and the normalized option of each surviving key row.\<close>

definition keyPairs :: "builtins \<Rightarrow> element list \<Rightarrow> (jsnum \<times> jsval) list" where
  "keyPairs B items =
     map (\<lambda>r. (Number B (questionNumber r), normalizeOption B (correctOption r)))
       (filter (keySurvives B) (rows items))"

text \<open>The entry stored for a student row, and the pairs of the surviving student rows.\<close>

definition studentEntry :: "builtins \<Rightarrow> row \<Rightarrow> row" where
  "studentEntry B r =
     r\<lparr>questionNumber := JNum (Number B (questionNumber r)),
       selectedOption := normalizeOption B (selectedOption r)\<rparr>"

definition studentPairs :: "builtins \<Rightarrow> element list \<Rightarrow> (jsnum \<times> row) list" where
  "studentPairs B items =
     map (\<lambda>r. (Number B (questionNumber r), studentEntry B r))
       (filter (studentSurvives B) (rows items))"

text \<open>
  Last occurrence wins: the value of the last pair with the key. First-seen order: each key
  once, at the place of its first occurrence.
\<close>

fun lastWins :: "('k \<times> 'v) list \<Rightarrow> 'k \<Rightarrow> 'v option" where
  "lastWins [] k = None"
| "lastWins ((k', v) # ps) k =
     (case lastWins ps k of Some w \<Rightarrow> Some w | None \<Rightarrow> if k' = k then Some v else None)"

fun firstSeen :: "'k list \<Rightarrow> 'k list" where
  "firstSeen [] = []"
| "firstSeen (k # ks) = k # firstSeen (filter (\<lambda>k'. k' \<noteq> k) ks)"

text \<open>Inserting a list of pairs into a Map, one \<^verbatim>\<open>set\<close> after the other.\<close>

definition setAll :: "('k \<times> 'v) list \<Rightarrow> ('k \<times> 'v) list \<Rightarrow> ('k \<times> 'v) list" where
  "setAll m ps = foldl (\<lambda>m p. Map_set m (fst p) (snd p)) m ps"

text \<open>
  Every row of the original sequence with its coerced number and normalized option, dropped or
  not; the distinct question numbers of the surviving key rows; and whether a student element
  answers a question of the key (an element that is no object is kept: it makes the call
  fail).
\<close>

definition allKeyPairs :: "builtins \<Rightarrow> element list \<Rightarrow> (jsnum \<times> jsval) list" where
  "allKeyPairs B items =
     map (\<lambda>r. (Number B (questionNumber r), normalizeOption B (correctOption r))) (rows items)"

definition keyNumbers :: "builtins \<Rightarrow> element list \<Rightarrow> jsnum set" where
  "keyNumbers B answerKey = set (map fst (keyPairs B answerKey))"

definition answersKey :: "builtins \<Rightarrow> element list \<Rightarrow> element \<Rightarrow> bool" where
  "answersKey B answerKey item =
     (case item of
        Nullish \<Rightarrow> True
      | Object r \<Rightarrow> Number B (questionNumber r) \<in> keyNumbers B answerKey)"

text \<open>
  A malformed key row: its question number does not coerce to a finite number, or its correct
  option is null or missing, or empty once normalized. A student row without a number: its
  question number does not coerce to a finite number.
\<close>

definition malformedKeyRow :: "builtins \<Rightarrow> row \<Rightarrow> bool" where
  "malformedKeyRow B r =
     (\<not> isFinite (Number B (questionNumber r)) \<or>
      correctOption r = JNull \<or> correctOption r = JUndefined \<or>
      toUpperCase B (String B (correctOption r)) = [])"

definition unnumberedRow :: "builtins \<Rightarrow> row \<Rightarrow> bool" where
  "unnumberedRow B r = (\<not> isFinite (Number B (questionNumber r)))"

text \<open>
  The uppercased string of an option; the last surviving row of a question number in the key
  and in the student's answers; a student row that carries a selection; and whether, for a
  question number, the student's selection and the key's option have the same uppercased
  string, or different ones.
\<close>

definition uppercased :: "builtins \<Rightarrow> jsval \<Rightarrow> string" where
  "uppercased B v = toUpperCase B (String B v)"

definition lastKeyRow :: "builtins \<Rightarrow> element list \<Rightarrow> jsnum \<Rightarrow> row option" where
  "lastKeyRow B answerKey q =
     lastWins (map (\<lambda>r. (Number B (questionNumber r), r))
       (filter (keySurvives B) (rows answerKey))) q"

definition lastStudentRow :: "builtins \<Rightarrow> element list \<Rightarrow> jsnum \<Rightarrow> row option" where
  "lastStudentRow B studentAnswers q =
     lastWins (map (\<lambda>r. (Number B (questionNumber r), r))
       (filter (studentSurvives B) (rows studentAnswers))) q"

definition attempted :: "builtins \<Rightarrow> row \<Rightarrow> bool" where
  "attempted B sr =
     (selectedOption sr \<noteq> JNull \<and> selectedOption sr \<noteq> JUndefined \<and>
      uppercased B (selectedOption sr) \<noteq> [])"

definition sameOption :: "builtins \<Rightarrow> element list \<Rightarrow> element list \<Rightarrow> jsnum \<Rightarrow> bool" where
  "sameOption B answerKey studentAnswers q =
     (case (lastKeyRow B answerKey q, lastStudentRow B studentAnswers q) of
        (Some kr, Some sr) \<Rightarrow>
          attempted B sr \<and>
          uppercased B (selectedOption sr) = uppercased B (correctOption kr)
      | _ \<Rightarrow> False)"

definition otherOption :: "builtins \<Rightarrow> element list \<Rightarrow> element list \<Rightarrow> jsnum \<Rightarrow> bool" where
  "otherOption B answerKey studentAnswers q =
     (case (lastKeyRow B answerKey q, lastStudentRow B studentAnswers q) of
        (Some kr, Some sr) \<Rightarrow>
          attempted B sr \<and>
          uppercased B (selectedOption sr) \<noteq> uppercased B (correctOption kr)
      | _ \<Rightarrow> False)"






text \<open>
  A row of primitives as a row of any values, and the selected options of the two kinds of
  student map.
\<close>

definition widenRow :: "row \<Rightarrow> anyRow" where
  "widenRow r =
     \<lparr>anyQuestionNumber = Prim (questionNumber r), anyCorrectOption = Prim (correctOption r),
      anySelectedOption = Prim (selectedOption r)\<rparr>"

definition widen :: "element \<Rightarrow> anyElement" where
  "widen item = (case item of Nullish \<Rightarrow> AnyNullish | Object r \<Rightarrow> AnyObject (widenRow r))"

definition entryOptions :: "(jsnum \<times> anyEntry) list \<Rightarrow> (jsnum \<times> jsval) list" where
  "entryOptions studentMap = map (\<lambda>p. (fst p, entryOption (snd p))) studentMap"

definition selectedOptions :: "(jsnum \<times> row) list \<Rightarrow> (jsnum \<times> jsval) list" where
  "selectedOptions studentMap = map (\<lambda>p. (fst p, selectedOption (snd p))) studentMap"

subsection \<open>The marking scheme\<close>

text \<open>
  The three ways a question of the key is scored, as the specification words them: not
  attempted when the student has no entry for the question number or the entry's selected
  option is null or empty; correct when the selected option equals the correct option;
  incorrect otherwise. A correct answer is worth 4 marks, an incorrect one costs 1.
\<close>

datatype verdict = Unattempted | Correct | Incorrect

definition verdictOf :: "(jsnum \<times> row) list \<Rightarrow> jsnum \<times> jsval \<Rightarrow> verdict" where
  "verdictOf studentMap entry =
     (case Map_get studentMap (fst entry) of
        None \<Rightarrow> Unattempted
      | Some e \<Rightarrow>
          if selectedOption e = JNull \<or> selectedOption e = JStr [] then Unattempted
          else if selectedOption e = snd entry then Correct
          else Incorrect)"

fun marksOf :: "verdict \<Rightarrow> int" where
  "marksOf Unattempted = 0"
| "marksOf Correct = 4"
| "marksOf Incorrect = - 1"

text \<open>The selected option of the student's entry for a question number.\<close>

definition selectedBy :: "(jsnum \<times> row) list \<Rightarrow> jsnum \<Rightarrow> jsval" where
  "selectedBy studentMap q =
     (case Map_get studentMap q of None \<Rightarrow> JUndefined | Some e \<Rightarrow> selectedOption e)"

text \<open>The WrongQuestion record of an entry of the key.\<close>

definition wrongRecord :: "(jsnum \<times> row) list \<Rightarrow> jsnum \<times> jsval \<Rightarrow> wrongQuestion" where
  "wrongRecord studentMap entry =
     \<lparr>questionNumber = JNum (fst entry), correctOption = snd entry,
      selectedOption = selectedBy studentMap (fst entry), subject = getSubject (fst entry)\<rparr>"

text \<open>One iteration of the scoring loop, written from the verdict.\<close>

definition markStep ::
  "(jsnum \<times> row) list \<Rightarrow> evaluationResult \<Rightarrow> jsnum \<times> jsval \<Rightarrow> evaluationResult" where
  "markStep sm s e =
     (let v = verdictOf sm e; subj = getSubject (fst e) in
      s\<lparr>physicsMarks := physicsMarks s + (if subj = ''Physics'' then marksOf v else 0),
        chemistryMarks := chemistryMarks s + (if subj = ''Chemistry'' then marksOf v else 0),
        biologyMarks := biologyMarks s + (if subj = ''Biology'' then marksOf v else 0),
        totalMarks := totalMarks s + marksOf v,
        correctCount := correctCount s + (if v = Correct then 1 else 0),
        incorrectCount := incorrectCount s + (if v = Incorrect then 1 else 0),
        unattemptedCount := unattemptedCount s + (if v = Unattempted then 1 else 0),
        wrongQuestions := wrongQuestions s @ (if v = Incorrect then [wrongRecord sm e] else [])\<rparr>)"

text \<open>
  The values the two loops store: a normalized option is null or a string, and an option of
  the key map is a non-empty string.
\<close>

definition isOption :: "jsval \<Rightarrow> bool" where
  "isOption v = (case v of JNull \<Rightarrow> True | JStr s \<Rightarrow> True | _ \<Rightarrow> False)"

definition normalMaps :: "(jsnum \<times> row) list \<Rightarrow> (jsnum \<times> jsval) list \<Rightarrow> bool" where
  "normalMaps sm es =
     ((\<forall>p \<in> set sm. isOption (selectedOption (snd p))) \<and>
      (\<forall>e \<in> set es. isOption (snd e) \<and> \<not> falsy (snd e)))"

text \<open>The invariants of the eight variables of the scoring loop.\<close>

definition marksAddUp :: "evaluationResult \<Rightarrow> bool" where
  "marksAddUp s = (totalMarks s = physicsMarks s + chemistryMarks s + biologyMarks s)"

definition countsAgree :: "evaluationResult \<Rightarrow> bool" where
  "countsAgree s =
     (totalMarks s = 4 * int (correctCount s) - int (incorrectCount s) \<and>
      length (wrongQuestions s) = incorrectCount s)"

definition countsSum :: "evaluationResult \<Rightarrow> nat" where
  "countsSum s = correctCount s + incorrectCount s + unattemptedCount s"

subsection \<open>A sample of the built-ins, for the examples\<close>

text \<open>
  The examples below run the model on concrete rows and need an implementation of the three
  built-ins. This one is exact on what the examples use: ASCII strings for
  \<^verbatim>\<open>toUpperCase\<close>; for the conversion to a number, strings of at most 15 decimal digits (a
  number) and strings without any digit, sign, dot or blank (NaN, but for the empty string
  and \<^verbatim>\<open>Infinity\<close>); for the conversion to a string, NaN, the infinities and the integers
  below \<open>10^21\<close> in magnitude. The theorems hold for every implementation; only their
  examples use this one.
\<close>

definition upperChar :: "char \<Rightarrow> char" where
  "upperChar c =
     (if CHR ''a'' \<le> c \<and> c \<le> CHR ''z''
      then (case c of Char b0 b1 b2 b3 b4 b5 b6 b7 \<Rightarrow> Char b0 b1 b2 b3 b4 False b6 b7)
      else c)"

fun digitsToNat :: "nat \<Rightarrow> string \<Rightarrow> nat option" where
  "digitsToNat acc [] = Some acc"
| "digitsToNat acc (c # cs) =
     (if CHR ''0'' \<le> c \<and> c \<le> CHR ''9''
      then digitsToNat (10 * acc + (of_char c - 48)) cs
      else None)"

definition sampleStringToNumber :: "string \<Rightarrow> jsnum" where
  "sampleStringToNumber s =
     (if s = ''Infinity'' then Infinity
      else case digitsToNat 0 s of Some n \<Rightarrow> Finite (of_nat n) | None \<Rightarrow> NaN)"

fun natToDigits :: "nat \<Rightarrow> string" where
  "natToDigits n =
     (if n < 10 then [''0123456789'' ! n]
      else natToDigits (n div 10) @ [''0123456789'' ! (n mod 10)])"

definition sampleNumberToString :: "jsnum \<Rightarrow> string" where
  "sampleNumberToString n =
     (case n of
        NaN \<Rightarrow> ''NaN''
      | Infinity \<Rightarrow> ''Infinity''
      | NegInfinity \<Rightarrow> ''-Infinity''
      | Finite x \<Rightarrow>
          (if x < 0 then CHR ''-'' # natToDigits (nat \<lfloor>- x\<rfloor>) else natToDigits (nat \<lfloor>x\<rfloor>)))"

definition sampleBuiltins :: builtins where
  "sampleBuiltins =
     \<lparr>StringToNumber = sampleStringToNumber, NumberToString = sampleNumberToString,
      toUpperCase = map upperChar\<rparr>"

text \<open>A key row \<^verbatim>\<open>{questionNumber, correctOption}\<close> and a student row
  \<^verbatim>\<open>{questionNumber, selectedOption}\<close>.\<close>

definition keyRow :: "jsval \<Rightarrow> jsval \<Rightarrow> element" where
  "keyRow q c = Object \<lparr>questionNumber = q, correctOption = c, selectedOption = JUndefined\<rparr>"

definition studentRow :: "jsval \<Rightarrow> jsval \<Rightarrow> element" where
  "studentRow q c = Object \<lparr>questionNumber = q, correctOption = JUndefined, selectedOption = c\<rparr>"

text \<open>Example 1 of the specification, and an input with duplicate and malformed rows.\<close>

definition exampleKey :: "element list" where
  "exampleKey =
     [keyRow (JNum (Finite 1)) (JStr ''A''), keyRow (JNum (Finite 51)) (JStr ''B''),
      keyRow (JNum (Finite 101)) (JStr ''C'')]"

definition exampleStudent :: "element list" where
  "exampleStudent =
     [studentRow (JNum (Finite 1)) (JStr ''A''), studentRow (JNum (Finite 51)) (JStr ''C''),
      studentRow (JNum (Finite 101)) (JStr ''C'')]"

definition messyKey :: "element list" where
  "messyKey =
     [keyRow (JNum (Finite 1)) (JStr ''a''), keyRow (JStr ''x'') (JStr ''A''),
      keyRow (JNum (Finite 51)) JNull, keyRow (JNum (Finite 1)) (JStr ''b''),
      keyRow (JNum (Finite 101)) (JStr ''C''), keyRow (JStr ''75'') (JStr ''d'')]"

definition messyStudent :: "element list" where
  "messyStudent =
     [studentRow (JNum (Finite 1)) (JStr ''B''), studentRow (JNum (Finite 7)) (JStr ''A''),
      studentRow (JStr ''x'') (JStr ''C''), studentRow (JNum (Finite 101)) (JStr ''d''),
      studentRow (JNum (Finite 101)) JNull, studentRow (JNum (Finite 75)) (JStr ''a'')]"

text \<open>
  A key whose first row for question 5 and last row for question 7 are dropped, with a
  student who answers both questions \<open>C\<close>; and a store that holds a key array, a student
  array and their four rows.
\<close>

definition droppedKey :: "element list" where
  "droppedKey =
     [keyRow (JNum (Finite 5)) JNull, keyRow (JNum (Finite 7)) (JStr ''A''),
      keyRow (JNum (Finite 5)) (JStr ''B''), keyRow (JNum (Finite 7)) JNull]"

definition droppedStudent :: "element list" where
  "droppedStudent =
     [studentRow (JNum (Finite 5)) (JStr ''C''), studentRow (JNum (Finite 7)) (JStr ''C'')]"

definition exampleStore :: store where
  "exampleStore =
     [ArrayCell [RObject 2, RObject 3], ArrayCell [RObject 4, RObject 5],
      RowCell \<lparr>questionNumber = JNum (Finite 1), correctOption = JStr ''A'',
               selectedOption = JUndefined\<rparr>,
      RowCell \<lparr>questionNumber = JNum (Finite 51), correctOption = JStr ''B'',
               selectedOption = JUndefined\<rparr>,
      RowCell \<lparr>questionNumber = JStr ''1'', correctOption = JUndefined,
               selectedOption = JStr ''a''\<rparr>,
      RowCell \<lparr>questionNumber = JNum (Finite 51), correctOption = JUndefined,
               selectedOption = JStr ''c''\<rparr>]"

text \<open>
  Rows of any values: a key row and a student row; the object \<^verbatim>\<open>{"toString": null}\<close>,
  which no conversion accepts, and the plain object \<^verbatim>\<open>{}\<close>; a key of two questions and a
  student who answers the first.
\<close>

definition anyKeyRow :: "jsany \<Rightarrow> jsany \<Rightarrow> anyElement" where
  "anyKeyRow q c =
     AnyObject \<lparr>anyQuestionNumber = q, anyCorrectOption = c, anySelectedOption = Prim JUndefined\<rparr>"

definition anyStudentRow :: "jsany \<Rightarrow> jsany \<Rightarrow> anyElement" where
  "anyStudentRow q c =
     AnyObject \<lparr>anyQuestionNumber = q, anyCorrectOption = Prim JUndefined, anySelectedOption = c\<rparr>"

definition unconvertible :: jsany where
  "unconvertible = JObject (Inl TypeError) (Inl TypeError)"

definition plainObject :: jsany where
  "plainObject = JObject (Inr (JStr ''[object Object]'')) (Inr (JStr ''[object Object]''))"

definition twoKeys :: "anyElement list" where
  "twoKeys =
     [anyKeyRow (Prim (JNum (Finite 1))) (Prim (JStr ''A'')),
      anyKeyRow (Prim (JNum (Finite 51))) (Prim (JStr ''B''))]"

definition oneAnswer :: "anyElement list" where
  "oneAnswer = [anyStudentRow (Prim (JNum (Finite 1))) (Prim (JStr ''a''))]"

section \<open>The two loops that build the maps\<close>

lemma setAll_Nil [simp]: "setAll m [] = m"
  by (simp add: setAll_def)

lemma setAll_Cons [simp]: "setAll m (p # ps) = setAll (Map_set m (fst p) (snd p)) ps"
  by (simp add: setAll_def)

lemma Map_get_Map_set: "Map_get (Map_set m k v) k' = (if k' = k then Some v else Map_get m k')"
  by (induction m k v rule: Map_set.induct) auto

lemma keys_Map_set:
  "map fst (Map_set m k v) = (if k \<in> set (map fst m) then map fst m else map fst m @ [k])"
  by (induction m k v rule: Map_set.induct) auto

lemma set_Map_set: "set (Map_set m k v) \<subseteq> insert (k, v) (set m)"
  by (induction m k v rule: Map_set.induct) auto

lemma Map_get_in_set: "Map_get m k = Some v \<Longrightarrow> (k, v) \<in> set m"
  by (induction m k rule: Map_get.induct) (auto split: if_splits)

lemma Map_get_setAll:
  "Map_get (setAll m ps) k = (case lastWins ps k of Some v \<Rightarrow> Some v | None \<Rightarrow> Map_get m k)"
  by (induction ps arbitrary: m) (auto simp: Map_get_Map_set split: option.splits)

lemma set_setAll: "set (setAll m ps) \<subseteq> set m \<union> set ps"
proof (induction ps arbitrary: m)
  case Nil
  then show ?case by simp
next
  case (Cons p ps)
  have "set (setAll m (p # ps)) \<subseteq> set (Map_set m (fst p) (snd p)) \<union> set ps"
    using Cons [of "Map_set m (fst p) (snd p)"] by simp
  also have "\<dots> \<subseteq> insert p (set m) \<union> set ps"
    using set_Map_set [of m "fst p" "snd p"] by auto
  finally show ?case by auto
qed

lemma firstSeen_filter: "firstSeen (filter P ks) = filter P (firstSeen ks)"
proof (induction ks rule: firstSeen.induct)
  case 1
  then show ?case by simp
next
  case (2 k ks)
  have comm: "filter (\<lambda>k'. k' \<noteq> k) (filter P ks) = filter P (filter (\<lambda>k'. k' \<noteq> k) ks)"
    by (simp add: conj_commute)
  show ?case
  proof (cases "P k")
    case True
    with 2 comm show ?thesis by simp
  next
    case False
    have "filter P (filter (\<lambda>k'. k' \<noteq> k) ks) = filter P ks"
      using False by (auto intro: filter_cong)
    with False 2 show ?thesis by simp
  qed
qed

lemma set_firstSeen [simp]: "set (firstSeen ks) = set ks"
  by (induction ks rule: firstSeen.induct) auto

lemma distinct_firstSeen [simp]: "distinct (firstSeen ks)"
  by (induction ks rule: firstSeen.induct) auto

lemma keys_setAll:
  "map fst (setAll m ps) =
     map fst m @ firstSeen (filter (\<lambda>k. k \<notin> set (map fst m)) (map fst ps))"
proof (induction ps arbitrary: m)
  case Nil
  then show ?case by simp
next
  case (Cons p ps)
  show ?case
  proof (cases "fst p \<in> set (map fst m)")
    case True
    then show ?thesis by (simp add: Cons keys_Map_set)
  next
    case False
    have "map fst (setAll m (p # ps)) =
          (map fst m @ [fst p]) @
            firstSeen (filter (\<lambda>k. k \<notin> set (map fst m @ [fst p])) (map fst ps))"
      using False Cons [of "Map_set m (fst p) (snd p)"] by (simp add: keys_Map_set)
    also have "filter (\<lambda>k. k \<notin> set (map fst m @ [fst p])) (map fst ps) =
          filter (\<lambda>k'. k' \<noteq> fst p) (filter (\<lambda>k. k \<notin> set (map fst m)) (map fst ps))"
      by (auto intro: filter_cong)
    finally show ?thesis using False by simp
  qed
qed

lemma answerKeyStep_Nullish: "answerKeyStep B m Nullish = Inl TypeError"
  by (simp add: answerKeyStep_def)

lemma answerKeyStep_Object:
  "answerKeyStep B m (Object r) =
     Inr (if keySurvives B r
          then Map_set m (Number B (questionNumber r)) (normalizeOption B (correctOption r))
          else m)"
  by (simp add: answerKeyStep_def keySurvives_def Let_def)

lemma studentStep_Nullish: "studentStep B m Nullish = Inl TypeError"
  by (simp add: studentStep_def)

lemma studentStep_Object:
  "studentStep B m (Object r) =
     Inr (if studentSurvives B r
          then Map_set m (Number B (questionNumber r)) (studentEntry B r)
          else m)"
  by (simp add: studentStep_def studentEntry_def studentSurvives_def Let_def)

lemma forOf_answerKeyStep:
  "forOf (answerKeyStep B) m items =
     (if Nullish \<in> set items then Inl TypeError else Inr (setAll m (keyPairs B items)))"
proof (induction items arbitrary: m)
  case Nil
  then show ?case by (simp add: keyPairs_def)
next
  case (Cons item items)
  show ?case
  proof (cases item)
    case Nullish
    then show ?thesis by (simp add: answerKeyStep_Nullish)
  next
    case (Object r)
    then show ?thesis
      using Cons [of "Map_set m (Number B (questionNumber r)) (normalizeOption B (correctOption r))"]
        Cons [of m]
      by (simp add: answerKeyStep_Object keyPairs_def)
  qed
qed

lemma forOf_studentStep:
  "forOf (studentStep B) m items =
     (if Nullish \<in> set items then Inl TypeError else Inr (setAll m (studentPairs B items)))"
proof (induction items arbitrary: m)
  case Nil
  then show ?case by (simp add: studentPairs_def)
next
  case (Cons item items)
  show ?case
  proof (cases item)
    case Nullish
    then show ?thesis by (simp add: studentStep_Nullish)
  next
    case (Object r)
    then show ?thesis
      using Cons [of "Map_set m (Number B (questionNumber r)) (studentEntry B r)"] Cons [of m]
      by (simp add: studentStep_Object studentPairs_def)
  qed
qed

lemma evaluateNeetOMR_closed:
  "evaluateNeetOMR B answerKey studentAnswers =
     (if Nullish \<in> set answerKey \<or> Nullish \<in> set studentAnswers then Inl TypeError
      else Inr (foldl (scoreStep (setAll [] (studentPairs B studentAnswers))) initialResult
                  (setAll [] (keyPairs B answerKey))))"
  by (simp add: evaluateNeetOMR_def forOf_answerKeyStep forOf_studentStep)

section \<open>The scoring loop\<close>

lemma isOption_normalizeOption [simp]: "isOption (normalizeOption B v)"
  by (simp add: normalizeOption_def isOption_def)

lemma normalMaps_built:
  "normalMaps (setAll [] (studentPairs B studentAnswers)) (setAll [] (keyPairs B answerKey))"
proof -
  have "\<forall>p \<in> set (studentPairs B studentAnswers). isOption (selectedOption (snd p))"
    by (auto simp: studentPairs_def studentEntry_def)
  moreover have "\<forall>e \<in> set (keyPairs B answerKey). isOption (snd e) \<and> \<not> falsy (snd e)"
    by (auto simp: keyPairs_def keySurvives_def)
  ultimately show ?thesis
    unfolding normalMaps_def
    using set_setAll [of "[]" "studentPairs B studentAnswers"]
      set_setAll [of "[]" "keyPairs B answerKey"]
    by auto
qed

lemma getSubject_cases:
  "getSubject q = ''Physics'' \<or> getSubject q = ''Chemistry'' \<or> getSubject q = ''Biology''"
  by simp

text \<open>On normalized maps the body of the loop is the marking step.\<close>

lemma scoreStep_markStep:
  assumes sm: "\<forall>p \<in> set sm. isOption (selectedOption (snd p))"
    and e: "isOption (snd e)" "\<not> falsy (snd e)"
  shows "scoreStep sm s e = markStep sm s e"
proof (cases "Map_get sm (fst e)")
  case None
  then show ?thesis
    by (simp add: scoreStep_def markStep_def verdictOf_def)
next
  case (Some x)
  then have "isOption (selectedOption x)"
    using sm Map_get_in_set [of sm "fst e" x] by auto
  then consider "selectedOption x = JNull" | t where "selectedOption x = JStr t"
    by (auto simp: isOption_def split: jsval.splits)
  then show ?thesis
  proof cases
    case 1
    with Some show ?thesis
      by (simp add: scoreStep_def markStep_def verdictOf_def)
  next
    case 2
    from e obtain c where c: "snd e = JStr c" "c \<noteq> []"
      by (auto simp: isOption_def split: jsval.splits)
    show ?thesis
    proof (cases "t = []")
      case True
      with Some 2 show ?thesis
        by (simp add: scoreStep_def markStep_def verdictOf_def)
    next
      case False
      show ?thesis
      proof (cases "t = c")
        case True
        with Some 2 c False show ?thesis
          using getSubject_cases [of "fst e"]
          by (auto simp add: scoreStep_def markStep_def verdictOf_def strictEq_def Let_def
              simp del: getSubject.simps)
      next
        case ne: False
        with Some 2 c False show ?thesis
          using getSubject_cases [of "fst e"]
          by (auto simp add: scoreStep_def markStep_def verdictOf_def strictEq_def Let_def
              wrongRecord_def selectedBy_def simp del: getSubject.simps)
      qed
    qed
  qed
qed

lemma foldl_scoreStep_markStep:
  assumes "normalMaps sm es"
  shows "foldl (scoreStep sm) s es = foldl (markStep sm) s es"
  using assms
proof (induction es arbitrary: s)
  case Nil
  then show ?case by simp
next
  case (Cons e es)
  then have "scoreStep sm s e = markStep sm s e"
    by (intro scoreStep_markStep) (auto simp: normalMaps_def)
  moreover have "normalMaps sm es"
    using Cons.prems by (auto simp: normalMaps_def)
  ultimately show ?case using Cons.IH by simp
qed

lemma foldl_markStep_totalMarks:
  "totalMarks (foldl (markStep sm) s es) = totalMarks s + (\<Sum>e\<leftarrow>es. marksOf (verdictOf sm e))"
  by (induction es arbitrary: s) (simp_all add: markStep_def Let_def)

lemma foldl_markStep_subject:
  "physicsMarks (foldl (markStep sm) s es) =
     physicsMarks s +
     (\<Sum>e\<leftarrow>filter (\<lambda>e. getSubject (fst e) = ''Physics'') es. marksOf (verdictOf sm e))"
  "chemistryMarks (foldl (markStep sm) s es) =
     chemistryMarks s +
     (\<Sum>e\<leftarrow>filter (\<lambda>e. getSubject (fst e) = ''Chemistry'') es. marksOf (verdictOf sm e))"
  "biologyMarks (foldl (markStep sm) s es) =
     biologyMarks s +
     (\<Sum>e\<leftarrow>filter (\<lambda>e. getSubject (fst e) = ''Biology'') es. marksOf (verdictOf sm e))"
  by (induction es arbitrary: s) (simp_all add: markStep_def Let_def del: getSubject.simps)

lemma foldl_markStep_counts:
  "correctCount (foldl (markStep sm) s es) =
     correctCount s + length (filter (\<lambda>e. verdictOf sm e = Correct) es)"
  "incorrectCount (foldl (markStep sm) s es) =
     incorrectCount s + length (filter (\<lambda>e. verdictOf sm e = Incorrect) es)"
  "unattemptedCount (foldl (markStep sm) s es) =
     unattemptedCount s + length (filter (\<lambda>e. verdictOf sm e = Unattempted) es)"
  by (induction es arbitrary: s) (simp_all add: markStep_def Let_def)

lemma foldl_markStep_wrongQuestions:
  "wrongQuestions (foldl (markStep sm) s es) =
     wrongQuestions s @ map (wrongRecord sm) (filter (\<lambda>e. verdictOf sm e = Incorrect) es)"
  by (induction es arbitrary: s) (simp_all add: markStep_def Let_def)

lemma evaluationResult_fields:
  fixes r :: evaluationResult
  shows "r = \<lparr>physicsMarks = physicsMarks r, chemistryMarks = chemistryMarks r,
     biologyMarks = biologyMarks r, totalMarks = totalMarks r, correctCount = correctCount r,
     incorrectCount = incorrectCount r, unattemptedCount = unattemptedCount r,
     wrongQuestions = wrongQuestions r\<rparr>"
  by simp

lemma foldl_markStep_initial:
  "foldl (markStep sm) initialResult es =
     \<lparr>physicsMarks =
        (\<Sum>e\<leftarrow>filter (\<lambda>e. getSubject (fst e) = ''Physics'') es. marksOf (verdictOf sm e)),
      chemistryMarks =
        (\<Sum>e\<leftarrow>filter (\<lambda>e. getSubject (fst e) = ''Chemistry'') es. marksOf (verdictOf sm e)),
      biologyMarks =
        (\<Sum>e\<leftarrow>filter (\<lambda>e. getSubject (fst e) = ''Biology'') es. marksOf (verdictOf sm e)),
      totalMarks = (\<Sum>e\<leftarrow>es. marksOf (verdictOf sm e)),
      correctCount = length (filter (\<lambda>e. verdictOf sm e = Correct) es),
      incorrectCount = length (filter (\<lambda>e. verdictOf sm e = Incorrect) es),
      unattemptedCount = length (filter (\<lambda>e. verdictOf sm e = Unattempted) es),
      wrongQuestions = map (wrongRecord sm) (filter (\<lambda>e. verdictOf sm e = Incorrect) es)\<rparr>"
  apply (subst evaluationResult_fields [of "foldl (markStep sm) initialResult es"])
  apply (simp only: foldl_markStep_totalMarks foldl_markStep_subject foldl_markStep_counts
      foldl_markStep_wrongQuestions)
  apply (simp add: initialResult_def)
  done

text \<open>The evaluation, as the marking steps over the entries of the two maps.\<close>

lemma evaluateNeetOMR_marked:
  "evaluateNeetOMR B answerKey studentAnswers =
     (if Nullish \<in> set answerKey \<or> Nullish \<in> set studentAnswers then Inl TypeError
      else Inr (foldl (markStep (setAll [] (studentPairs B studentAnswers))) initialResult
                  (setAll [] (keyPairs B answerKey))))"
  by (simp add: evaluateNeetOMR_closed foldl_scoreStep_markStep [OF normalMaps_built])

subsection \<open>Invariants of the loop\<close>

lemma scoreStep_marksAddUp: "marksAddUp s \<Longrightarrow> marksAddUp (scoreStep sm s e)"
  using getSubject_cases [of "fst e"]
  by (auto simp: marksAddUp_def scoreStep_def Let_def split: option.splits
      simp del: getSubject.simps)

lemma foldl_scoreStep_marksAddUp: "marksAddUp s \<Longrightarrow> marksAddUp (foldl (scoreStep sm) s es)"
  by (induction es arbitrary: s) (simp_all add: scoreStep_marksAddUp)

lemma scoreStep_countsAgree: "countsAgree s \<Longrightarrow> countsAgree (scoreStep sm s e)"
  by (auto simp: countsAgree_def scoreStep_def Let_def split: option.splits
      simp del: getSubject.simps)

lemma foldl_scoreStep_countsAgree: "countsAgree s \<Longrightarrow> countsAgree (foldl (scoreStep sm) s es)"
  by (induction es arbitrary: s) (simp_all add: scoreStep_countsAgree)

lemma scoreStep_countsSum: "countsSum (scoreStep sm s e) = countsSum s + 1"
  by (auto simp: countsSum_def scoreStep_def Let_def split: option.splits
      simp del: getSubject.simps)

lemma foldl_scoreStep_countsSum: "countsSum (foldl (scoreStep sm) s es) = countsSum s + length es"
  by (induction es arbitrary: s) (simp_all add: scoreStep_countsSum)

lemma evaluateNeetOMR_Inr:
  "evaluateNeetOMR B answerKey studentAnswers = Inr r \<Longrightarrow>
   \<exists>sm es. r = foldl (scoreStep sm) initialResult es"
  by (auto simp: evaluateNeetOMR_def split: sum.splits)

subsection \<open>The maps, from the rows\<close>

lemma keys_built: "map fst (setAll [] ps) = firstSeen (map fst ps)"
  by (simp add: keys_setAll)

lemma Map_get_built: "Map_get (setAll [] ps) k = lastWins ps k"
  by (simp add: Map_get_setAll split: option.splits)

lemma length_built: "length (setAll [] ps) = card (set (map fst ps))"
proof -
  have "length (setAll [] ps) = length (map fst (setAll [] ps))" by simp
  also have "\<dots> = length (firstSeen (map fst ps))" by (simp only: keys_built)
  also have "\<dots> = card (set (firstSeen (map fst ps)))"
    by (rule distinct_card [symmetric]) simp
  finally show ?thesis by simp
qed

lemma distinct_Map_get: "distinct (map fst m) \<Longrightarrow> (k, v) \<in> set m \<Longrightarrow> Map_get m k = Some v"
  by (induction m k rule: Map_get.induct) (auto simp: rev_image_eqI)

lemma entry_built:
  assumes "e \<in> set (setAll [] ps)"
  shows "lastWins ps (fst e) = Some (snd e)"
proof -
  have "distinct (map fst (setAll [] ps))"
    by (simp only: keys_built distinct_firstSeen)
  then have "Map_get (setAll [] ps) (fst e) = Some (snd e)"
    using assms by (intro distinct_Map_get) simp_all
  then show ?thesis by (simp only: Map_get_built)
qed

lemma lastWins_filter:
  "P k \<Longrightarrow> lastWins (filter (\<lambda>p. P (fst p)) ps) k = lastWins ps k"
  by (induction ps) (auto split: option.splits)

lemma lastWins_map:
  "lastWins (map (\<lambda>r. (f r, g r)) rs) q = map_option g (lastWins (map (\<lambda>r. (f r, r)) rs) q)"
  by (induction rs) (auto split: option.splits)

lemma lastWins_in_set: "lastWins ps k = Some v \<Longrightarrow> (k, v) \<in> set ps"
  by (induction ps) (auto split: option.splits if_splits)

lemma rows_filter: "rows (filter Q items) = filter (\<lambda>r. Q (Object r)) (rows items)"
  by (induction items rule: rows.induct) auto

lemma rows_append: "rows (xs @ ys) = rows xs @ rows ys"
  by (induction xs rule: rows.induct) auto

subsection \<open>Student rows that answer no question of the key\<close>

lemma scoreStep_cong:
  "Map_get sm (fst e) = Map_get sm' (fst e) \<Longrightarrow> scoreStep sm s e = scoreStep sm' s e"
  by (simp add: scoreStep_def)

lemma foldl_scoreStep_cong:
  "\<forall>e \<in> set es. Map_get sm (fst e) = Map_get sm' (fst e) \<Longrightarrow>
   foldl (scoreStep sm) s es = foldl (scoreStep sm') s es"
proof (induction es arbitrary: s)
  case Nil
  then show ?case by simp
next
  case (Cons e es)
  then have "scoreStep sm s e = scoreStep sm' s e"
    by (intro scoreStep_cong) simp
  with Cons show ?case by simp
qed

lemma Nullish_filter_answersKey:
  "Nullish \<in> set (filter (answersKey B answerKey) items) \<longleftrightarrow> Nullish \<in> set items"
  by (auto simp: answersKey_def)

lemma studentPairs_filter_answersKey:
  "studentPairs B (filter (answersKey B answerKey) items) =
     filter (\<lambda>p. fst p \<in> keyNumbers B answerKey) (studentPairs B items)"
  by (simp add: studentPairs_def rows_filter filter_map comp_def answersKey_def conj_commute)

subsection \<open>The verdict, from the rows\<close>

lemma lastWins_keyPairs:
  "lastWins (keyPairs B answerKey) q =
     map_option (\<lambda>r. normalizeOption B (correctOption r)) (lastKeyRow B answerKey q)"
  unfolding keyPairs_def lastKeyRow_def by (rule lastWins_map)

lemma lastWins_studentPairs:
  "lastWins (studentPairs B studentAnswers) q =
     map_option (studentEntry B) (lastStudentRow B studentAnswers q)"
  unfolding studentPairs_def lastStudentRow_def by (rule lastWins_map)

lemma lastKeyRow_survives: "lastKeyRow B answerKey q = Some kr \<Longrightarrow> keySurvives B kr"
  unfolding lastKeyRow_def by (drule lastWins_in_set) auto

lemma normalizeOption_survives:
  "keySurvives B kr \<Longrightarrow>
   normalizeOption B (correctOption kr) = JStr (uppercased B (correctOption kr)) \<and>
   uppercased B (correctOption kr) \<noteq> []"
  by (auto simp: keySurvives_def normalizeOption_def uppercased_def split: if_splits)

lemma verdict_by_rows:
  assumes "e \<in> set (setAll [] (keyPairs B answerKey))"
  shows "(verdictOf (setAll [] (studentPairs B studentAnswers)) e = Correct \<longleftrightarrow>
            sameOption B answerKey studentAnswers (fst e)) \<and>
         (verdictOf (setAll [] (studentPairs B studentAnswers)) e = Incorrect \<longleftrightarrow>
            otherOption B answerKey studentAnswers (fst e))"
proof -
  from entry_built [OF assms]
  obtain kr where kr: "lastKeyRow B answerKey (fst e) = Some kr"
    and c: "snd e = normalizeOption B (correctOption kr)"
    by (auto simp: lastWins_keyPairs)
  from normalizeOption_survives [OF lastKeyRow_survives [OF kr]] c
  have c': "snd e = JStr (uppercased B (correctOption kr))" "uppercased B (correctOption kr) \<noteq> []"
    by simp_all
  show ?thesis
  proof (cases "lastStudentRow B studentAnswers (fst e)")
    case None
    then show ?thesis
      using kr by (simp add: verdictOf_def Map_get_built lastWins_studentPairs sameOption_def
          otherOption_def)
  next
    case (Some sr)
    then show ?thesis
      using kr c'
      by (auto simp: verdictOf_def Map_get_built lastWins_studentPairs sameOption_def
          otherOption_def studentEntry_def normalizeOption_def attempted_def uppercased_def)
  qed
qed

lemma filter_entries_keys:
  assumes "\<forall>e \<in> set es. P e \<longleftrightarrow> Q (fst e)"
  shows "map fst (filter P es) = filter Q (map fst es)"
  using assms by (induction es) auto

subsection \<open>Dropped rows\<close>

lemma malformedKeyRow_iff: "malformedKeyRow B r \<longleftrightarrow> \<not> keySurvives B r"
  by (auto simp: malformedKeyRow_def keySurvives_def normalizeOption_def)

lemma keyPairs_drop:
  "malformedKeyRow B r \<Longrightarrow> keyPairs B (xs @ Object r # ys) = keyPairs B (xs @ ys)"
  by (simp add: keyPairs_def rows_append malformedKeyRow_iff)

lemma studentPairs_drop:
  "unnumberedRow B r \<Longrightarrow> studentPairs B (xs @ Object r # ys) = studentPairs B (xs @ ys)"
  by (simp add: studentPairs_def rows_append unnumberedRow_def studentSurvives_def)

lemma studentPairs_unnumbered:
  "\<forall>r \<in> set (rows studentAnswers). unnumberedRow B r \<Longrightarrow> studentPairs B studentAnswers = []"
  by (simp add: studentPairs_def unnumberedRow_def studentSurvives_def)

lemma verdictOf_empty: "verdictOf [] e = Unattempted"
  by (simp add: verdictOf_def)

text \<open>On rows of primitives, where no conversion throws:\<close>

lemma primitive_rows_dropped:
  "(malformedKeyRow B kr \<longrightarrow>
      evaluateNeetOMR B (kxs @ Object kr # kys) studentAnswers =
      evaluateNeetOMR B (kxs @ kys) studentAnswers) \<and>
   (unnumberedRow B sr \<longrightarrow>
      evaluateNeetOMR B answerKey (sxs @ Object sr # sys) =
      evaluateNeetOMR B answerKey (sxs @ sys)) \<and>
   ((\<forall>r \<in> set (rows students). unnumberedRow B r) \<and>
    evaluateNeetOMR B answerKey students = Inr res \<longrightarrow>
      unattemptedCount res = card (keyNumbers B answerKey) \<and>
      correctCount res = 0 \<and> incorrectCount res = 0 \<and> totalMarks res = 0 \<and>
      wrongQuestions res = [])"
proof (intro conjI impI)
  assume "malformedKeyRow B kr"
  then show "evaluateNeetOMR B (kxs @ Object kr # kys) studentAnswers =
      evaluateNeetOMR B (kxs @ kys) studentAnswers"
    by (simp add: evaluateNeetOMR_closed keyPairs_drop)
next
  assume "unnumberedRow B sr"
  then show "evaluateNeetOMR B answerKey (sxs @ Object sr # sys) =
      evaluateNeetOMR B answerKey (sxs @ sys)"
    by (simp add: evaluateNeetOMR_closed studentPairs_drop)
next
  assume a: "(\<forall>r \<in> set (rows students). unnumberedRow B r) \<and>
    evaluateNeetOMR B answerKey students = Inr res"
  then have sp: "studentPairs B students = []"
    by (simp add: studentPairs_unnumbered)
  from a have res: "res = foldl (markStep []) initialResult (setAll [] (keyPairs B answerKey))"
    by (auto simp: evaluateNeetOMR_marked sp split: if_splits)
  show "unattemptedCount res = card (keyNumbers B answerKey)"
    unfolding res by (simp add: foldl_markStep_initial verdictOf_empty length_built keyNumbers_def)
  show "correctCount res = 0" "incorrectCount res = 0" "totalMarks res = 0"
    "wrongQuestions res = []"
    unfolding res by (simp_all add: foldl_markStep_initial verdictOf_empty)
qed

section \<open>The evaluator on a store\<close>

text \<open>The store only grows: a run appends the objects it creates.\<close>

lemma studentLoop_extends: "studentLoop B h sm xs = (res, h') \<Longrightarrow> \<exists>ext. h' = h @ ext"
proof (induction xs arbitrary: h sm)
  case Nil
  then show ?case by simp
next
  case (Cons x xs)
  show ?case
  proof (cases "deref h x")
    case Nullish
    with Cons.prems show ?thesis by simp
  next
    case (Object r)
    show ?thesis
    proof (cases "isFinite (Number B (questionNumber r))")
      case False
      with Cons Object show ?thesis by simp
    next
      case True
      with Cons.prems Object obtain c where
        "studentLoop B (h @ [c]) (Map_set sm (Number B (questionNumber r)) (length h)) xs =
           (res, h')"
        by (simp add: alloc_def Let_def)
      from Cons.IH [OF this] show ?thesis by auto
    qed
  qed
qed

lemma evaluateNeetOMR_store_extends:
  "evaluateNeetOMR_store B h ka sa = (res, h') \<Longrightarrow> \<exists>ext. h' = h @ ext"
  by (auto simp: evaluateNeetOMR_store_def split: option.splits sum.splits prod.splits
      dest: studentLoop_extends)

lemma lookup_append: "a < length h \<Longrightarrow> lookup (h @ ext) a = lookup h a"
  by (simp add: lookup_def nth_append)

lemma rowOf_append: "a < length h \<Longrightarrow> rowOf (h @ ext) a = rowOf h a"
  by (simp add: rowOf_def lookup_append)

lemma deref_append: "validRef h x \<Longrightarrow> deref (h @ ext) x = deref h x"
  by (cases x) (simp_all add: deref_def validRef_def rowOf_append)

lemma validRef_append: "validRef h x \<Longrightarrow> validRef (h @ ext) x"
  by (cases x) (simp_all add: validRef_def)

lemma map_deref_append:
  "list_all (validRef h) xs \<Longrightarrow> map (deref (h @ ext)) xs = map (deref h) xs"
  by (induction xs) (simp_all add: deref_append)

lemma elementsOf_append: "elementsOf h a = Some xs \<Longrightarrow> elementsOf (h @ ext) a = Some xs"
  by (auto simp: elementsOf_def lookup_def nth_append split: if_splits)

lemma entriesOf_Nil [simp]: "entriesOf h [] = []"
  by (simp add: entriesOf_def)

lemma entriesOf_append:
  "\<forall>p \<in> set sm. snd p < length h \<Longrightarrow> entriesOf (h @ ext) sm = entriesOf h sm"
  by (simp add: entriesOf_def rowOf_append)

lemma entriesOf_Map_set:
  "entriesOf h (Map_set sm q a) = Map_set (entriesOf h sm) q (rowOf h a)"
  by (induction sm q a rule: Map_set.induct) (simp_all add: entriesOf_def)

lemma rowOf_alloc: "rowOf (h @ [RowCell r]) (length h) = r"
  by (simp add: rowOf_def lookup_def)

text \<open>The second loop on the store computes what the second loop on values computes.\<close>

lemma studentLoop_refines:
  assumes "list_all (validRef h) xs" and "\<forall>p \<in> set sm. snd p < length h"
    and "studentLoop B h sm xs = (res, h')"
  shows "(case res of
            Inl e \<Rightarrow> forOf (studentStep B) (entriesOf h sm) (map (deref h) xs) = Inl e
          | Inr sm' \<Rightarrow>
              forOf (studentStep B) (entriesOf h sm) (map (deref h) xs) = Inr (entriesOf h' sm'))"
  using assms
proof (induction xs arbitrary: h sm)
  case Nil
  then show ?case by auto
next
  case (Cons x xs)
  from Cons.prems(1) have vx: "validRef h x" and vxs: "list_all (validRef h) xs" by simp_all
  show ?case
  proof (cases "deref h x")
    case Nullish
    with Cons.prems show ?thesis by (auto simp: studentStep_Nullish)
  next
    case (Object r)
    show ?thesis
    proof (cases "isFinite (Number B (questionNumber r))")
      case False
      with Cons.prems(3) Object have "studentLoop B h sm xs = (res, h')" by simp
      from Cons.IH [OF vxs Cons.prems(2) this] False Object show ?thesis
        by (auto simp: studentStep_Object studentSurvives_def split: sum.splits)
    next
      case True
      let ?e = "studentEntry B r"
      let ?h = "h @ [RowCell ?e]"
      let ?sm = "Map_set sm (Number B (questionNumber r)) (length h)"
      from Cons.prems(3) Object True have run: "studentLoop B ?h ?sm xs = (res, h')"
        by (simp add: alloc_def Let_def studentEntry_def)
      have v: "list_all (validRef ?h) xs"
        using vxs by (simp add: list_all_iff validRef_append)
      have a: "\<forall>p \<in> set ?sm. snd p < length ?h"
        using Cons.prems(2) set_Map_set [of sm "Number B (questionNumber r)" "length h"]
        by (auto simp: less_Suc_eq)
      have e: "entriesOf ?h ?sm = Map_set (entriesOf h sm) (Number B (questionNumber r)) ?e"
        using Cons.prems(2) by (simp add: entriesOf_Map_set rowOf_alloc entriesOf_append)
      have d: "map (deref ?h) xs = map (deref h) xs"
        using vxs by (rule map_deref_append)
      from Cons.IH [OF v a run] show ?thesis
        using Object True
        by (auto simp: e d studentStep_Object studentSurvives_def split: sum.splits)
    qed
  qed
qed

lemma forOf_map: "forOf (\<lambda>m x. f m (g x)) s xs = forOf f s (map g xs)"
  by (induction xs arbitrary: s) (simp_all split: sum.splits)

text \<open>The result of a run on the store is the result of \<open>evaluateNeetOMR\<close> on the
  contents of the two arrays.\<close>

lemma evaluateNeetOMR_store_refines:
  assumes ka: "elementsOf h answerKey = Some keyRefs"
    and sa: "elementsOf h studentAnswers = Some studentRefs"
    and valid: "list_all (validRef h) studentRefs"
  shows "fst (evaluateNeetOMR_store B h answerKey studentAnswers) =
     evaluateNeetOMR B (map (deref h) keyRefs) (map (deref h) studentRefs)"
proof (cases "forOf (answerKeyStep B) [] (map (deref h) keyRefs)")
  case (Inl e)
  then show ?thesis
    by (simp add: evaluateNeetOMR_store_def evaluateNeetOMR_def ka forOf_map)
next
  case (Inr answerKeyMap)
  obtain res h' where run: "studentLoop B h [] studentRefs = (res, h')"
    by (cases "studentLoop B h [] studentRefs") auto
  from studentLoop_refines [OF valid _ run]
  have "case res of
          Inl e \<Rightarrow> forOf (studentStep B) [] (map (deref h) studentRefs) = Inl e
        | Inr sm' \<Rightarrow>
            forOf (studentStep B) [] (map (deref h) studentRefs) = Inr (entriesOf h' sm')"
    by (cases res) simp_all
  then show ?thesis
    using Inr run
    by (auto simp: evaluateNeetOMR_store_def evaluateNeetOMR_def ka sa forOf_map
        split: sum.splits)
qed

lemma wellFormed_content:
  assumes "wellFormed h answerKey studentAnswers"
  obtains keyRefs studentRefs where
    "elementsOf h answerKey = Some keyRefs" "elementsOf h studentAnswers = Some studentRefs"
    "list_all (validRef h) keyRefs" "list_all (validRef h) studentRefs"
  using assms by (auto simp: wellFormed_def split: option.splits)

section \<open>Values whose conversion can throw\<close>












text \<open>
  On rows of primitives \<open>evaluateNeetOMR_any\<close> is \<open>evaluateNeetOMR\<close>: the two student
  maps hold the same selected options, which is all the third loop reads of them.
\<close>

lemma map_values_Map_set:
  "map (\<lambda>p. (fst p, f (snd p))) (Map_set m k v) =
     Map_set (map (\<lambda>p. (fst p, f (snd p))) m) k (f v)"
  by (induction m k v rule: Map_set.induct) simp_all

lemma Map_get_map_values:
  "Map_get (map (\<lambda>p. (fst p, f (snd p))) m) k = map_option f (Map_get m k)"
  by (induction m k rule: Map_get.induct) simp_all

lemma NumberAny_Prim: "NumberAny B (Prim v) = Inr (Number B v)"
  by simp

lemma normalizeOptionAny_Prim: "normalizeOptionAny B (Prim v) = Inr (normalizeOption B v)"
  by (simp add: normalizeOptionAny_def normalizeOption_def)

lemma answerKeyStepAny_widen: "answerKeyStepAny B m (widen item) = answerKeyStep B m item"
  by (cases item)
    (simp_all add: widen_def widenRow_def answerKeyStepAny_def answerKeyStep_def
      normalizeOptionAny_Prim Let_def)

lemma forOf_answerKeyStepAny_widen:
  "forOf (answerKeyStepAny B) m (map widen items) = forOf (answerKeyStep B) m items"
  by (induction items arbitrary: m) (simp_all add: answerKeyStepAny_widen split: sum.splits)

lemma studentStepAny_widen:
  assumes "entryOptions smA = selectedOptions sm"
  shows "(case (studentStepAny B smA (widen item), studentStep B sm item) of
            (Inl e, Inl e') \<Rightarrow> e = e'
          | (Inr smA', Inr sm') \<Rightarrow> entryOptions smA' = selectedOptions sm'
          | _ \<Rightarrow> False)"
  using assms
  by (cases item)
    (simp_all add: widen_def widenRow_def studentStepAny_def studentStep_def
      normalizeOptionAny_Prim Let_def entryOptions_def selectedOptions_def map_values_Map_set)

lemma forOf_studentStepAny_widen:
  assumes "entryOptions smA = selectedOptions sm"
  shows "(case (forOf (studentStepAny B) smA (map widen items), forOf (studentStep B) sm items) of
            (Inl e, Inl e') \<Rightarrow> e = e'
          | (Inr smA', Inr sm') \<Rightarrow> entryOptions smA' = selectedOptions sm'
          | _ \<Rightarrow> False)"
  using assms
proof (induction items arbitrary: smA sm)
  case Nil
  then show ?case by simp
next
  case (Cons item items)
  from studentStepAny_widen [OF Cons.prems, of B item] show ?case
    by (auto split: sum.splits dest: Cons.IH)
qed

lemma scoreStepAny_scoreStep:
  "entryOptions smA = selectedOptions sm \<Longrightarrow> scoreStepAny smA s e = scoreStep sm s e"
proof -
  assume "entryOptions smA = selectedOptions sm"
  then have "Map_get (entryOptions smA) (fst e) = Map_get (selectedOptions sm) (fst e)"
    by simp
  then have "map_option entryOption (Map_get smA (fst e)) =
      map_option selectedOption (Map_get sm (fst e))"
    by (simp add: entryOptions_def selectedOptions_def Map_get_map_values)
  then show ?thesis
    by (cases "Map_get smA (fst e)"; cases "Map_get sm (fst e)")
      (simp_all add: scoreStepAny_def scoreStep_def Let_def)
qed

lemma foldl_scoreStepAny_scoreStep:
  "entryOptions smA = selectedOptions sm \<Longrightarrow>
   foldl (scoreStepAny smA) s es = foldl (scoreStep sm) s es"
  by (induction es arbitrary: s) (simp_all add: scoreStepAny_scoreStep)

lemma evaluateNeetOMR_any_widen:
  "evaluateNeetOMR_any B (map widen answerKey) (map widen studentAnswers) =
     evaluateNeetOMR B answerKey studentAnswers"
proof -
  have "entryOptions [] = selectedOptions []"
    by (simp add: entryOptions_def selectedOptions_def)
  from forOf_studentStepAny_widen [OF this, of B studentAnswers] show ?thesis
    unfolding evaluateNeetOMR_any_def evaluateNeetOMR_def forOf_answerKeyStepAny_widen
    by (auto split: sum.splits simp: foldl_scoreStepAny_scoreStep)
qed

section \<open>The examples, evaluated\<close>

lemmas eval_simps =
  answerKeyStep_def studentStep_def scoreStep_def initialResult_def keyRow_def studentRow_def
  sampleBuiltins_def normalizeOption_def upperChar_def js_ge_def strictEq_def
  sampleStringToNumber_def Let_def

lemma messyKeyMap:
  "forOf (answerKeyStep sampleBuiltins) [] messyKey =
     Inr [(Finite 1, JStr ''B''), (Finite 101, JStr ''C''), (Finite 75, JStr ''D'')]"
  by (simp add: messyKey_def eval_simps)

lemma messyStudentMap:
  "forOf (studentStep sampleBuiltins) [] messyStudent =
     Inr [(Finite 1,
            \<lparr>questionNumber = JNum (Finite 1), correctOption = JUndefined,
             selectedOption = JStr ''B''\<rparr>),
          (Finite 7,
            \<lparr>questionNumber = JNum (Finite 7), correctOption = JUndefined,
             selectedOption = JStr ''A''\<rparr>),
          (Finite 101,
            \<lparr>questionNumber = JNum (Finite 101), correctOption = JUndefined,
             selectedOption = JNull\<rparr>),
          (Finite 75,
            \<lparr>questionNumber = JNum (Finite 75), correctOption = JUndefined,
             selectedOption = JStr ''A''\<rparr>)]"
  by (simp add: messyStudent_def eval_simps)

lemma exampleResult:
  "evaluateNeetOMR sampleBuiltins exampleKey exampleStudent =
     Inr \<lparr>physicsMarks = 4, chemistryMarks = - 1, biologyMarks = 4, totalMarks = 7,
          correctCount = 2, incorrectCount = 1, unattemptedCount = 0,
          wrongQuestions =
            [\<lparr>questionNumber = JNum (Finite 51), correctOption = JStr ''B'',
              selectedOption = JStr ''C'', subject = ''Chemistry''\<rparr>]\<rparr>"
  by (simp add: evaluateNeetOMR_def exampleKey_def exampleStudent_def eval_simps)

lemma messyResult:
  "evaluateNeetOMR sampleBuiltins messyKey messyStudent =
     Inr \<lparr>physicsMarks = 4, chemistryMarks = - 1, biologyMarks = 0, totalMarks = 3,
          correctCount = 1, incorrectCount = 1, unattemptedCount = 1,
          wrongQuestions =
            [\<lparr>questionNumber = JNum (Finite 75), correctOption = JStr ''D'',
              selectedOption = JStr ''A'', subject = ''Chemistry''\<rparr>]\<rparr>"
  by (simp add: evaluateNeetOMR_def messyKeyMap messyStudentMap scoreStep_def initialResult_def
      strictEq_def js_ge_def Let_def)

lemma messyKeyPairs:
  "keyPairs sampleBuiltins messyKey =
     [(Finite 1, JStr ''A''), (Finite 1, JStr ''B''), (Finite 101, JStr ''C''),
      (Finite 75, JStr ''D'')]"
  by (simp add: keyPairs_def keySurvives_def messyKey_def eval_simps)

lemma droppedKeyMap:
  "forOf (answerKeyStep sampleBuiltins) [] droppedKey =
     Inr [(Finite 7, JStr ''A''), (Finite 5, JStr ''B'')]"
  by (simp add: droppedKey_def eval_simps)

lemma droppedStudentMap:
  "forOf (studentStep sampleBuiltins) [] droppedStudent =
     Inr [(Finite 5,
            \<lparr>questionNumber = JNum (Finite 5), correctOption = JUndefined,
             selectedOption = JStr ''C''\<rparr>),
          (Finite 7,
            \<lparr>questionNumber = JNum (Finite 7), correctOption = JUndefined,
             selectedOption = JStr ''C''\<rparr>)]"
  by (simp add: droppedStudent_def eval_simps)

lemmas store_simps =
  evaluateNeetOMR_store_def elementsOf_def lookup_def deref_def rowOf_def alloc_def
  entriesOf_def

lemma exampleStore_run:
  "evaluateNeetOMR_store sampleBuiltins exampleStore 0 1 =
     (Inr \<lparr>physicsMarks = 4, chemistryMarks = - 1, biologyMarks = 0, totalMarks = 3,
           correctCount = 1, incorrectCount = 1, unattemptedCount = 0,
           wrongQuestions =
             [\<lparr>questionNumber = JNum (Finite 51), correctOption = JStr ''B'',
               selectedOption = JStr ''C'', subject = ''Chemistry''\<rparr>]\<rparr>,
      exampleStore @
        [RowCell \<lparr>questionNumber = JNum (Finite 1), correctOption = JUndefined,
                  selectedOption = JStr ''A''\<rparr>,
         RowCell \<lparr>questionNumber = JNum (Finite 51), correctOption = JUndefined,
                  selectedOption = JStr ''C''\<rparr>])"
  by (simp add: exampleStore_def store_simps eval_simps)

lemma exampleStore_wellFormed: "wellFormed exampleStore 0 1"
  by (simp add: wellFormed_def exampleStore_def elementsOf_def lookup_def validRef_def)

lemmas any_simps =
  evaluateNeetOMR_any_def answerKeyStepAny_def studentStepAny_def scoreStepAny_def
  normalizeOptionAny_def anyKeyRow_def anyStudentRow_def unconvertible_def plainObject_def
  twoKeys_def oneAnswer_def initialResult_def sampleBuiltins_def upperChar_def js_ge_def
  strictEq_def sampleStringToNumber_def Let_def

lemma twoKeys_result:
  "evaluateNeetOMR_any sampleBuiltins twoKeys oneAnswer =
     Inr \<lparr>physicsMarks = 4, chemistryMarks = 0, biologyMarks = 0, totalMarks = 4,
          correctCount = 1, incorrectCount = 0, unattemptedCount = 1, wrongQuestions = []\<rparr>"
  by (simp add: any_simps)


section \<open>The properties\<close>

text \<open>
  Claim C1. For every entry of the answer-key map (the entries that survive the drop rules),
  the evaluation applies the marking scheme exactly. With the verdict of an entry as the
  specification words it (not attempted when the student map has no entry for the question
  number or its selected option is null or empty, correct when the normalized selected option
  equals the normalized correct option, incorrect otherwise), the result is: each count is
  the number of entries with that verdict; \<open>totalMarks\<close> is the sum of +4 per correct and -1
  per incorrect entry and nothing per entry not attempted; each subject's mark is that sum
  over the entries of the subject; and \<open>wrongQuestions\<close> holds the record
  \<open>{questionNumber, subject, selectedOption, correctOption}\<close> of each incorrect entry, in
  the order of iteration.
\<close>

theorem marking_scheme:
  assumes "forOf (answerKeyStep B) [] answerKey = Inr answerKeyMap"
    and "forOf (studentStep B) [] studentAnswers = Inr studentMap"
  shows "evaluateNeetOMR B answerKey studentAnswers =
     Inr \<lparr>physicsMarks =
            (\<Sum>e\<leftarrow>filter (\<lambda>e. getSubject (fst e) = ''Physics'') answerKeyMap.
               marksOf (verdictOf studentMap e)),
          chemistryMarks =
            (\<Sum>e\<leftarrow>filter (\<lambda>e. getSubject (fst e) = ''Chemistry'') answerKeyMap.
               marksOf (verdictOf studentMap e)),
          biologyMarks =
            (\<Sum>e\<leftarrow>filter (\<lambda>e. getSubject (fst e) = ''Biology'') answerKeyMap.
               marksOf (verdictOf studentMap e)),
          totalMarks = (\<Sum>e\<leftarrow>answerKeyMap. marksOf (verdictOf studentMap e)),
          correctCount = length (filter (\<lambda>e. verdictOf studentMap e = Correct) answerKeyMap),
          incorrectCount = length (filter (\<lambda>e. verdictOf studentMap e = Incorrect) answerKeyMap),
          unattemptedCount =
            length (filter (\<lambda>e. verdictOf studentMap e = Unattempted) answerKeyMap),
          wrongQuestions =
            map (wrongRecord studentMap)
              (filter (\<lambda>e. verdictOf studentMap e = Incorrect) answerKeyMap)\<rparr>"
proof -
  from assms(1) have ak: "Nullish \<notin> set answerKey"
    "answerKeyMap = setAll [] (keyPairs B answerKey)"
    by (auto simp: forOf_answerKeyStep split: if_splits)
  from assms(2) have sa: "Nullish \<notin> set studentAnswers"
    "studentMap = setAll [] (studentPairs B studentAnswers)"
    by (auto simp: forOf_studentStep split: if_splits)
  show ?thesis
    using ak sa by (simp add: evaluateNeetOMR_marked foldl_markStep_initial)
qed

text \<open>
  On the input with duplicate and malformed rows: question 1 is answered correctly against
  the last key row for it, question 101 is not attempted (the student's last row for it has
  a null option), and question 75 is answered \<open>A\<close> against \<open>D\<close>.
\<close>

theorem marking_scheme_example:
  "evaluateNeetOMR sampleBuiltins messyKey messyStudent =
     Inr \<lparr>physicsMarks = 4, chemistryMarks = - 1, biologyMarks = 0, totalMarks = 3,
          correctCount = 1, incorrectCount = 1, unattemptedCount = 1,
          wrongQuestions =
            [\<lparr>questionNumber = JNum (Finite 75), correctOption = JStr ''D'',
              selectedOption = JStr ''A'', subject = ''Chemistry''\<rparr>]\<rparr>"
  using marking_scheme [OF messyKeyMap messyStudentMap]
  by (simp add: verdictOf_def wrongRecord_def selectedBy_def js_ge_def)

text \<open>
  Claim C2. Whenever the evaluation returns a result, \<open>correctCount + incorrectCount +
  unattemptedCount\<close> is the number of distinct question numbers among the answer-key rows
  that are not dropped; and the question numbers that appear only in the student's
  submission contribute nothing: removing every student row whose question number is not a
  question number of the key leaves the whole result as it is.
\<close>

theorem counts_cover_key:
  assumes "evaluateNeetOMR B answerKey studentAnswers = Inr r"
  shows "correctCount r + incorrectCount r + unattemptedCount r = card (keyNumbers B answerKey) \<and>
         evaluateNeetOMR B answerKey (filter (answersKey B answerKey) studentAnswers) = Inr r"
proof -
  let ?es = "setAll [] (keyPairs B answerKey)"
  let ?sm = "setAll [] (studentPairs B studentAnswers)"
  let ?sm' = "setAll [] (studentPairs B (filter (answersKey B answerKey) studentAnswers))"
  from assms have nn: "Nullish \<notin> set answerKey" "Nullish \<notin> set studentAnswers"
    and r: "r = foldl (scoreStep ?sm) initialResult ?es"
    by (auto simp: evaluateNeetOMR_closed split: if_splits)
  have "countsSum r = countsSum initialResult + length ?es"
    unfolding r by (rule foldl_scoreStep_countsSum)
  then have one: "correctCount r + incorrectCount r + unattemptedCount r =
      card (keyNumbers B answerKey)"
    by (simp add: countsSum_def initialResult_def length_built keyNumbers_def)
  have "\<forall>e \<in> set ?es. Map_get ?sm' (fst e) = Map_get ?sm (fst e)"
  proof
    fix e assume "e \<in> set ?es"
    then have "fst e \<in> set (map fst ?es)" by simp
    then have "fst e \<in> keyNumbers B answerKey"
      by (simp only: keys_built set_firstSeen keyNumbers_def)
    then show "Map_get ?sm' (fst e) = Map_get ?sm (fst e)"
      by (simp add: Map_get_built studentPairs_filter_answersKey
          lastWins_filter [where P = "\<lambda>k. k \<in> keyNumbers B answerKey"])
  qed
  then have "foldl (scoreStep ?sm') initialResult ?es = r"
    unfolding r by (rule foldl_scoreStep_cong)
  then have two:
    "evaluateNeetOMR B answerKey (filter (answersKey B answerKey) studentAnswers) = Inr r"
    using nn by (simp add: evaluateNeetOMR_closed Nullish_filter_answersKey)
  from one two show ?thesis ..
qed

text \<open>
  On the input with duplicate and malformed rows the key has three distinct surviving
  question numbers, and the student's rows for question 7 and for \<open>x\<close> can be removed.
\<close>

theorem counts_cover_key_example:
  "\<exists>r. evaluateNeetOMR sampleBuiltins messyKey messyStudent = Inr r \<and>
       keyNumbers sampleBuiltins messyKey = {Finite 1, Finite 101, Finite 75} \<and>
       correctCount r + incorrectCount r + unattemptedCount r = 3 \<and>
       filter (answersKey sampleBuiltins messyKey) messyStudent =
         [studentRow (JNum (Finite 1)) (JStr ''B''), studentRow (JNum (Finite 101)) (JStr ''d''),
          studentRow (JNum (Finite 101)) JNull, studentRow (JNum (Finite 75)) (JStr ''a'')] \<and>
       evaluateNeetOMR sampleBuiltins messyKey
         [studentRow (JNum (Finite 1)) (JStr ''B''), studentRow (JNum (Finite 101)) (JStr ''d''),
          studentRow (JNum (Finite 101)) JNull, studentRow (JNum (Finite 75)) (JStr ''a'')] = Inr r"
proof -
  have k: "keyNumbers sampleBuiltins messyKey = {Finite 1, Finite 101, Finite 75}"
    by (auto simp add: keyNumbers_def keyPairs_def keySurvives_def messyKey_def eval_simps)
  have f: "filter (answersKey sampleBuiltins messyKey) messyStudent =
         [studentRow (JNum (Finite 1)) (JStr ''B''), studentRow (JNum (Finite 101)) (JStr ''d''),
          studentRow (JNum (Finite 101)) JNull, studentRow (JNum (Finite 75)) (JStr ''a'')]"
    unfolding answersKey_def k by (simp add: messyStudent_def eval_simps)
  show ?thesis
    using counts_cover_key [OF messyResult] messyResult unfolding f k by simp
qed

text \<open>
  Claim C3. Whenever the evaluation returns a result, \<open>totalMarks\<close> is the sum of
  \<open>physicsMarks\<close>, \<open>chemistryMarks\<close> and \<open>biologyMarks\<close>.
\<close>

theorem total_is_sum_of_subjects:
  assumes "evaluateNeetOMR B answerKey studentAnswers = Inr r"
  shows "totalMarks r = physicsMarks r + chemistryMarks r + biologyMarks r"
proof -
  from assms obtain sm es where r: "r = foldl (scoreStep sm) initialResult es"
    using evaluateNeetOMR_Inr by blast
  have "marksAddUp initialResult"
    by (simp add: marksAddUp_def initialResult_def)
  then have "marksAddUp r"
    unfolding r by (rule foldl_scoreStep_marksAddUp)
  then show ?thesis by (simp add: marksAddUp_def)
qed

text \<open>Example 1 of the specification: 7 = 4 + (-1) + 4.\<close>

theorem total_is_sum_of_subjects_example:
  "\<exists>r. evaluateNeetOMR sampleBuiltins exampleKey exampleStudent = Inr r \<and>
       physicsMarks r = 4 \<and> chemistryMarks r = - 1 \<and> biologyMarks r = 4 \<and> totalMarks r = 7 \<and>
       totalMarks r = physicsMarks r + chemistryMarks r + biologyMarks r"
  using total_is_sum_of_subjects [OF exampleResult] exampleResult by simp

text \<open>
  Claim C4. The subject is a function of the question number alone: a number in [1,50] is
  Physics, a number in [51,100] is Chemistry, and every other value is Biology: a number
  below 1, above 100 or strictly between 50 and 51, and NaN and the infinities. In
  particular 50 is Physics, 51 and 100 are Chemistry and 101 is Biology.
\<close>

theorem subject_bands:
  "(1 \<le> x \<and> x \<le> 50 \<longrightarrow> getSubject (Finite x) = ''Physics'') \<and>
   (51 \<le> x \<and> x \<le> 100 \<longrightarrow> getSubject (Finite x) = ''Chemistry'') \<and>
   (\<not> (1 \<le> x \<and> x \<le> 50) \<and> \<not> (51 \<le> x \<and> x \<le> 100) \<longrightarrow>
      getSubject (Finite x) = ''Biology'') \<and>
   getSubject NaN = ''Biology'' \<and> getSubject Infinity = ''Biology'' \<and>
   getSubject NegInfinity = ''Biology'' \<and>
   getSubject (Finite 50) = ''Physics'' \<and> getSubject (Finite 51) = ''Chemistry'' \<and>
   getSubject (Finite 100) = ''Chemistry'' \<and> getSubject (Finite 101) = ''Biology''"
  by (simp add: js_ge_def)

theorem subject_bands_example:
  "getSubject (Finite 1) = ''Physics'' \<and> getSubject (Finite 75) = ''Chemistry'' \<and>
   getSubject (Finite 0) = ''Biology'' \<and> getSubject (Finite (- 4)) = ''Biology'' \<and>
   getSubject (Finite (101 / 2)) = ''Biology'' \<and> getSubject (Finite 180) = ''Biology''"
  using subject_bands [of 1] subject_bands [of 75] subject_bands [of 0] subject_bands [of "- 4"]
    subject_bands [of "101 / 2"] subject_bands [of 180]
  by simp

text \<open>
  Claim C5, as amended. When the same coerced question number appears several times among
  the answer-key rows that survive the drop rules, or among the student rows whose number is
  finite, the value of the last such row wins in the corresponding lookup mapping; the keys
  of the key mapping are the distinct question numbers of the surviving key rows in
  first-seen order; and the evaluation iterates the key mapping in that order, against the
  student mapping. Hence for duplicate key rows only the correct option of the last surviving
  row is used for scoring.
\<close>

theorem last_surviving_occurrence_wins:
  assumes "forOf (answerKeyStep B) [] answerKey = Inr answerKeyMap"
    and "forOf (studentStep B) [] studentAnswers = Inr studentMap"
  shows "map fst answerKeyMap = firstSeen (map fst (keyPairs B answerKey)) \<and>
         (\<forall>q. Map_get answerKeyMap q = lastWins (keyPairs B answerKey) q) \<and>
         (\<forall>q. Map_get studentMap q = lastWins (studentPairs B studentAnswers) q) \<and>
         evaluateNeetOMR B answerKey studentAnswers =
           Inr (foldl (scoreStep studentMap) initialResult answerKeyMap)"
proof -
  from assms(1) have ak: "answerKeyMap = setAll [] (keyPairs B answerKey)"
    by (auto simp: forOf_answerKeyStep split: if_splits)
  from assms(2) have sa: "studentMap = setAll [] (studentPairs B studentAnswers)"
    by (auto simp: forOf_studentStep split: if_splits)
  have "evaluateNeetOMR B answerKey studentAnswers =
      Inr (foldl (scoreStep studentMap) initialResult answerKeyMap)"
    using assms by (simp add: evaluateNeetOMR_def)
  then show ?thesis
    by (simp add: ak sa keys_built Map_get_built)
qed

text \<open>
  On the input with duplicate and malformed rows: question 1 has the surviving key rows
  \<open>a\<close> and \<open>b\<close> and is scored against \<open>B\<close>; the student's last row for question 101
  has a null option.
\<close>

theorem last_surviving_occurrence_wins_example:
  "keyPairs sampleBuiltins messyKey =
     [(Finite 1, JStr ''A''), (Finite 1, JStr ''B''), (Finite 101, JStr ''C''),
      (Finite 75, JStr ''D'')] \<and>
   (\<exists>answerKeyMap studentMap.
      forOf (answerKeyStep sampleBuiltins) [] messyKey = Inr answerKeyMap \<and>
      forOf (studentStep sampleBuiltins) [] messyStudent = Inr studentMap \<and>
      map fst answerKeyMap = [Finite 1, Finite 101, Finite 75] \<and>
      Map_get answerKeyMap (Finite 1) = Some (JStr ''B'') \<and>
      map_option selectedOption (Map_get studentMap (Finite 101)) = Some JNull \<and>
      evaluateNeetOMR sampleBuiltins messyKey messyStudent =
        Inr (foldl (scoreStep studentMap) initialResult answerKeyMap))"
  using last_surviving_occurrence_wins [OF messyKeyMap messyStudentMap] messyKeyMap
    messyStudentMap messyKeyPairs
  by simp

text \<open>
  Claim C5 as it is stated, over the original answer-key sequence, fails where a dropped row
  shares its question number with a surviving one. In the key \<open>[{5, null}, {7, "A"},
  {5, "B"}, {7, null}]\<close> the first-seen order of the question numbers of the original
  sequence is 5, 7 and the last occurrence of question 7 has a null option; the key mapping
  is iterated in the order 7, 5, question 7 is scored against \<open>A\<close>, and \<open>wrongQuestions\<close>
  lists question 7 before question 5.
\<close>

theorem original_sequence_order_counterexample:
  "forOf (answerKeyStep sampleBuiltins) [] droppedKey =
     Inr [(Finite 7, JStr ''A''), (Finite 5, JStr ''B'')] \<and>
   map fst [(Finite 7, JStr ''A''), (Finite 5, JStr ''B'')] \<noteq>
     firstSeen (map fst (allKeyPairs sampleBuiltins droppedKey)) \<and>
   firstSeen (map fst (allKeyPairs sampleBuiltins droppedKey)) = [Finite 5, Finite 7] \<and>
   Map_get [(Finite 7, JStr ''A''), (Finite 5, JStr ''B'')] (Finite 7) \<noteq>
     lastWins (allKeyPairs sampleBuiltins droppedKey) (Finite 7) \<and>
   lastWins (allKeyPairs sampleBuiltins droppedKey) (Finite 7) = Some JNull \<and>
   evaluateNeetOMR sampleBuiltins droppedKey droppedStudent =
     Inr \<lparr>physicsMarks = - 2, chemistryMarks = 0, biologyMarks = 0, totalMarks = - 2,
          correctCount = 0, incorrectCount = 2, unattemptedCount = 0,
          wrongQuestions =
            [\<lparr>questionNumber = JNum (Finite 7), correctOption = JStr ''A'',
              selectedOption = JStr ''C'', subject = ''Physics''\<rparr>,
             \<lparr>questionNumber = JNum (Finite 5), correctOption = JStr ''B'',
              selectedOption = JStr ''C'', subject = ''Physics''\<rparr>]\<rparr>"
proof -
  have pairs: "allKeyPairs sampleBuiltins droppedKey =
      [(Finite 5, JNull), (Finite 7, JStr ''A''), (Finite 5, JStr ''B''), (Finite 7, JNull)]"
    by (simp add: allKeyPairs_def droppedKey_def eval_simps)
  have run: "evaluateNeetOMR sampleBuiltins droppedKey droppedStudent =
     Inr \<lparr>physicsMarks = - 2, chemistryMarks = 0, biologyMarks = 0, totalMarks = - 2,
          correctCount = 0, incorrectCount = 2, unattemptedCount = 0,
          wrongQuestions =
            [\<lparr>questionNumber = JNum (Finite 7), correctOption = JStr ''A'',
              selectedOption = JStr ''C'', subject = ''Physics''\<rparr>,
             \<lparr>questionNumber = JNum (Finite 5), correctOption = JStr ''B'',
              selectedOption = JStr ''C'', subject = ''Physics''\<rparr>]\<rparr>"
    by (simp add: evaluateNeetOMR_def droppedKeyMap droppedStudentMap scoreStep_def
        initialResult_def strictEq_def js_ge_def Let_def)
  show ?thesis
    by (simp add: droppedKeyMap pairs run)
qed

text \<open>
  Claim C6. Option comparison is case-insensitive. For a question number of the key, take the
  last surviving key row and the student's last row for it. The questions counted in
  \<open>correctCount\<close> are exactly those whose student row carries a selection and whose
  uppercased selected option equals the uppercased correct option, and the questions listed
  in \<open>wrongQuestions\<close> are exactly those whose student row carries a selection and whose
  uppercased strings differ.
\<close>

theorem uppercase_comparison:
  assumes "evaluateNeetOMR B answerKey studentAnswers = Inr r"
  shows "correctCount r =
           length (filter (sameOption B answerKey studentAnswers)
             (firstSeen (map fst (keyPairs B answerKey)))) \<and>
         map questionNumber (wrongQuestions r) =
           map JNum (filter (otherOption B answerKey studentAnswers)
             (firstSeen (map fst (keyPairs B answerKey))))"
proof -
  let ?es = "setAll [] (keyPairs B answerKey)"
  let ?sm = "setAll [] (studentPairs B studentAnswers)"
  from assms have r: "r = foldl (markStep ?sm) initialResult ?es"
    by (auto simp: evaluateNeetOMR_marked split: if_splits)
  have same: "map fst (filter (\<lambda>e. verdictOf ?sm e = Correct) ?es) =
      filter (sameOption B answerKey studentAnswers) (map fst ?es)"
    by (rule filter_entries_keys) (simp add: verdict_by_rows)
  have other: "map fst (filter (\<lambda>e. verdictOf ?sm e = Incorrect) ?es) =
      filter (otherOption B answerKey studentAnswers) (map fst ?es)"
    by (rule filter_entries_keys) (simp add: verdict_by_rows)
  have "correctCount r = length (map fst (filter (\<lambda>e. verdictOf ?sm e = Correct) ?es))"
    unfolding r by (simp add: foldl_markStep_initial)
  then have one: "correctCount r =
      length (filter (sameOption B answerKey studentAnswers)
        (firstSeen (map fst (keyPairs B answerKey))))"
    by (simp only: same keys_built)
  have "map questionNumber (wrongQuestions r) =
      map JNum (map fst (filter (\<lambda>e. verdictOf ?sm e = Incorrect) ?es))"
    unfolding r by (simp add: foldl_markStep_initial wrongRecord_def comp_def)
  then have two: "map questionNumber (wrongQuestions r) =
      map JNum (filter (otherOption B answerKey studentAnswers)
        (firstSeen (map fst (keyPairs B answerKey))))"
    by (simp only: other keys_built)
  from one two show ?thesis ..
qed

text \<open>
  Key option \<open>a\<close> matches student selection \<open>A\<close>; key option \<open>b\<close> does not match
  \<open>c\<close>.
\<close>

theorem uppercase_comparison_example:
  "\<exists>r. evaluateNeetOMR sampleBuiltins
         [keyRow (JNum (Finite 7)) (JStr ''a''), keyRow (JNum (Finite 8)) (JStr ''b'')]
         [studentRow (JNum (Finite 7)) (JStr ''A''), studentRow (JNum (Finite 8)) (JStr ''c'')] =
         Inr r \<and>
       correctCount r = 1 \<and>
       map questionNumber (wrongQuestions r) = [JNum (Finite 8)] \<and>
       sameOption sampleBuiltins
         [keyRow (JNum (Finite 7)) (JStr ''a''), keyRow (JNum (Finite 8)) (JStr ''b'')]
         [studentRow (JNum (Finite 7)) (JStr ''A''), studentRow (JNum (Finite 8)) (JStr ''c'')]
         (Finite 7) \<and>
       otherOption sampleBuiltins
         [keyRow (JNum (Finite 7)) (JStr ''a''), keyRow (JNum (Finite 8)) (JStr ''b'')]
         [studentRow (JNum (Finite 7)) (JStr ''A''), studentRow (JNum (Finite 8)) (JStr ''c'')]
         (Finite 8)"
proof -
  let ?key = "[keyRow (JNum (Finite 7)) (JStr ''a''), keyRow (JNum (Finite 8)) (JStr ''b'')]"
  let ?student =
    "[studentRow (JNum (Finite 7)) (JStr ''A''), studentRow (JNum (Finite 8)) (JStr ''c'')]"
  have run: "evaluateNeetOMR sampleBuiltins ?key ?student =
     Inr \<lparr>physicsMarks = 3, chemistryMarks = 0, biologyMarks = 0, totalMarks = 3,
          correctCount = 1, incorrectCount = 1, unattemptedCount = 0,
          wrongQuestions =
            [\<lparr>questionNumber = JNum (Finite 8), correctOption = JStr ''B'',
              selectedOption = JStr ''C'', subject = ''Physics''\<rparr>]\<rparr>"
    by (simp add: evaluateNeetOMR_def eval_simps)
  have same: "sameOption sampleBuiltins ?key ?student (Finite 7)"
    by (simp add: sameOption_def lastKeyRow_def lastStudentRow_def keySurvives_def
        studentSurvives_def attempted_def uppercased_def eval_simps)
  have other: "otherOption sampleBuiltins ?key ?student (Finite 8)"
    by (simp add: otherOption_def lastKeyRow_def lastStudentRow_def keySurvives_def
        studentSurvives_def attempted_def uppercased_def eval_simps)
  show ?thesis
    using uppercase_comparison [OF run] run same other by simp
qed




text \<open>
  Claim C8. The evaluator never throws on an input that matches the declared record shapes:
  when every element of the two sequences is an object, whatever primitive values its
  properties hold, the evaluation returns a result. In particular, on two empty sequences
  the result has all marks and all counts zero and an empty \<open>wrongQuestions\<close>.
\<close>

theorem never_throws:
  "(Nullish \<notin> set answerKey \<and> Nullish \<notin> set studentAnswers \<longrightarrow>
      (\<exists>r. evaluateNeetOMR B answerKey studentAnswers = Inr r)) \<and>
   evaluateNeetOMR B [] [] =
     Inr \<lparr>physicsMarks = 0, chemistryMarks = 0, biologyMarks = 0, totalMarks = 0,
          correctCount = 0, incorrectCount = 0, unattemptedCount = 0, wrongQuestions = []\<rparr>"
  by (simp add: evaluateNeetOMR_closed initialResult_def keyPairs_def)

theorem never_throws_example:
  "Nullish \<notin> set messyKey \<and> Nullish \<notin> set messyStudent \<and>
   (\<exists>r. evaluateNeetOMR sampleBuiltins messyKey messyStudent = Inr r)"
proof -
  have h: "Nullish \<notin> set messyKey \<and> Nullish \<notin> set messyStudent"
    by (simp add: messyKey_def messyStudent_def keyRow_def studentRow_def)
  with never_throws [of messyKey messyStudent sampleBuiltins] show ?thesis by blast
qed

text \<open>
  Claim C9. The evaluation is deterministic and pure. For a well-formed call on a store that
  returns \<open>res\<close> and leaves the store \<open>h'\<close>: every cell that the store held before the
  call, the two input arrays and their rows among them, holds the same value after it; the
  same call on the store as the first call left it returns \<open>res\<close> again; and any
  well-formed call, on any store, whose two arrays have the same contents as the arrays of
  this call returns \<open>res\<close>, the order of \<open>wrongQuestions\<close> included.
\<close>

theorem deterministic_and_pure:
  assumes wf: "wellFormed h answerKey studentAnswers"
    and run: "evaluateNeetOMR_store B h answerKey studentAnswers = (res, h')"
  shows "(\<forall>a. a < length h \<longrightarrow> lookup h' a = lookup h a) \<and>
         fst (evaluateNeetOMR_store B h' answerKey studentAnswers) = res \<and>
         (\<forall>g ka sa.
            wellFormed g ka sa \<and> contentOf g ka = contentOf h answerKey \<and>
            contentOf g sa = contentOf h studentAnswers \<longrightarrow>
            fst (evaluateNeetOMR_store B g ka sa) = res)"
proof -
  from wf obtain keyRefs studentRefs where
    ka: "elementsOf h answerKey = Some keyRefs"
    and sa: "elementsOf h studentAnswers = Some studentRefs"
    and vk: "list_all (validRef h) keyRefs" and vs: "list_all (validRef h) studentRefs"
    by (rule wellFormed_content)
  from run obtain ext where h': "h' = h @ ext"
    using evaluateNeetOMR_store_extends by blast
  have frame: "\<forall>a. a < length h \<longrightarrow> lookup h' a = lookup h a"
    by (simp add: h' lookup_append)
  have res: "res = evaluateNeetOMR B (map (deref h) keyRefs) (map (deref h) studentRefs)"
    using evaluateNeetOMR_store_refines [OF ka sa vs, of B] run by simp
  have same: "fst (evaluateNeetOMR_store B g ka' sa') = res"
    if g: "wellFormed g ka' sa'" "contentOf g ka' = contentOf h answerKey"
      "contentOf g sa' = contentOf h studentAnswers" for g ka' sa'
  proof -
    from g(1) obtain kr sr where
      gk: "elementsOf g ka' = Some kr" and gs: "elementsOf g sa' = Some sr"
      and gv: "list_all (validRef g) sr"
      by (rule wellFormed_content)
    from g(2,3) have "map (deref g) kr = map (deref h) keyRefs"
      "map (deref g) sr = map (deref h) studentRefs"
      by (simp_all add: contentOf_def gk gs ka sa)
    then show ?thesis
      using evaluateNeetOMR_store_refines [OF gk gs gv, of B] by (simp add: res)
  qed
  have wf': "wellFormed h' answerKey studentAnswers"
    using ka sa vk vs
    by (simp add: wellFormed_def h' elementsOf_append list_all_iff validRef_append)
  have c: "contentOf h' answerKey = contentOf h answerKey"
    "contentOf h' studentAnswers = contentOf h studentAnswers"
    using ka sa vk vs by (simp_all add: contentOf_def h' elementsOf_append map_deref_append)
  from same [OF wf' c] frame same show ?thesis by blast
qed

text \<open>
  On the example store the call creates two objects, the entries of the two student rows,
  behind the six cells it was given, and a second call returns the same result.
\<close>

theorem deterministic_and_pure_example:
  "wellFormed exampleStore 0 1 \<and>
   (\<exists>res h'. evaluateNeetOMR_store sampleBuiltins exampleStore 0 1 = (res, h') \<and>
      length h' = length exampleStore + 2 \<and>
      take (length exampleStore) h' = exampleStore \<and>
      lookup h' 4 = lookup exampleStore 4 \<and>
      fst (evaluateNeetOMR_store sampleBuiltins h' 0 1) = res)"
  using deterministic_and_pure [OF exampleStore_wellFormed exampleStore_run]
    exampleStore_wellFormed exampleStore_run
  by (simp add: exampleStore_def)

text \<open>
  Claim C10. Whenever the evaluation returns a result, \<open>totalMarks\<close> is four times
  \<open>correctCount\<close> minus \<open>incorrectCount\<close>, and \<open>wrongQuestions\<close> has \<open>incorrectCount\<close>
  records.
\<close>

theorem total_from_counts:
  assumes "evaluateNeetOMR B answerKey studentAnswers = Inr r"
  shows "totalMarks r = 4 * int (correctCount r) - int (incorrectCount r) \<and>
         length (wrongQuestions r) = incorrectCount r"
proof -
  from assms obtain sm es where r: "r = foldl (scoreStep sm) initialResult es"
    using evaluateNeetOMR_Inr by blast
  have "countsAgree initialResult"
    by (simp add: countsAgree_def initialResult_def)
  then have "countsAgree r"
    unfolding r by (rule foldl_scoreStep_countsAgree)
  then show ?thesis by (simp add: countsAgree_def)
qed

theorem total_from_counts_example:
  "\<exists>r. evaluateNeetOMR sampleBuiltins messyKey messyStudent = Inr r \<and>
       totalMarks r = 3 \<and> correctCount r = 1 \<and> incorrectCount r = 1 \<and>
       totalMarks r = 4 * int (correctCount r) - int (incorrectCount r) \<and>
       length (wrongQuestions r) = incorrectCount r"
  using total_from_counts [OF messyResult] messyResult by simp

end
